theory Spec2Isabelle
  imports Complex_Main
begin

section \<open>The fraud scoring pipeline of \<^verbatim>\<open>src/ai/fraud_detection.py\<close>\<close>

text \<open>
  The development embeds \<^verbatim>\<open>FraudDetectionEngine.extract_features\<close>, the four
  \<^verbatim>\<open>_compute_*\<close> sub-scorers and \<^verbatim>\<open>FraudDetectionEngine.predict_fraud\<close>.

  Conventions of the embedding.
  \<^item> A Python \<^verbatim>\<open>float\<close> is a \<^typ>\<open>real\<close>: arithmetic is exact, so the statements are
    about the formulas of the program, not about binary rounding.
  \<^item> A dictionary is an association list read with \<^const>\<open>map_of\<close>; the transaction, whose
    keys are fixed, is a record with an optional value for every key that may be absent
    (\<open>tx_type\<close> is the key \<^verbatim>\<open>'type'\<close>). The amount, which the program converts with
    \<^verbatim>\<open>float\<close>, may be a number, a string or \<^verbatim>\<open>None\<close>; the other values have the Python
    type the program expects of them (the location and the device are dictionaries of
    strings, the values of the history are numbers).
  \<^item> The wall clock (\<^verbatim>\<open>time.time()\<close>, \<^verbatim>\<open>datetime.now()\<close>) and the global random
    generator (\<^verbatim>\<open>np.random.beta\<close>) are operations on an explicit world state \<open>'w\<close>, threaded
    through the calls in the order of the source.
  \<^item> The fitted scaler and the two fitted classifiers are objects loaded from a file; they
    are parameters of the model, and may fail.
  \<^item> An exception is a value \<open>Inl e\<close> of the result.
\<close>

subsection \<open>Data\<close>

text \<open>The exceptions of the model: those of the builtins, and \<open>ModelError\<close> for whatever the
  loaded scaler or a classifier raises on an input it does not accept.\<close>

datatype py_error = ValueError | TypeError | KeyError | ModelError

text \<open>The values the key \<^verbatim>\<open>'amount'\<close> may hold: a number, a string or \<^verbatim>\<open>None\<close>.\<close>

datatype pyval = PNum real | PStr string | PNone

record location_info =
  country :: "string option"

record device_info =
  userAgent :: "string option"

record transaction =
  amount :: "pyval option"
  tx_type :: "string option"
  timestamp :: "string option"
  location :: "location_info option"
  deviceInfo :: "device_info option"

type_synonym history = "(string \<times> real) list"

type_synonym features = "(string \<times> real) list"

text \<open>What the program reads of a \<^verbatim>\<open>datetime\<close>: \<^verbatim>\<open>.hour\<close>, \<^verbatim>\<open>.weekday()\<close>, \<^verbatim>\<open>.isoformat()\<close>.\<close>

record datetime =
  hour :: int
  weekday :: int
  isoformat :: string

text \<open>The environment of a scoring call: clock, random generator, \<^verbatim>\<open>float\<close> on strings,
  and the loaded model (\<^verbatim>\<open>self.scaler\<close>, \<^verbatim>\<open>self.model['rf']\<close>, \<^verbatim>\<open>self.model['gb']\<close>).\<close>

record 'w sys =
  time_time :: "'w \<Rightarrow> real \<times> 'w"
  datetime_now :: "'w \<Rightarrow> datetime \<times> 'w"
  random_beta :: "real \<Rightarrow> real \<Rightarrow> 'w \<Rightarrow> real \<times> 'w"
  float_of_str :: "string \<Rightarrow> real option"
  scaler_transform :: "real list \<Rightarrow> py_error + real list"
  rf_predict_proba :: "real list \<Rightarrow> py_error + real"
  gb_predict_proba :: "real list \<Rightarrow> py_error + real"

text \<open>The returned dictionary: floats, strings and one nested dictionary.\<close>

datatype resval = RFloat real | RStr string | RDict "(string \<times> resval) list"

subsection \<open>Python builtins used by the program\<close>

text \<open>\<^verbatim>\<open>float(x)\<close>: a number is kept, a string is parsed or raises \<^verbatim>\<open>ValueError\<close>,
  \<^verbatim>\<open>None\<close> raises \<^verbatim>\<open>TypeError\<close>.\<close>

definition py_float :: "'w sys \<Rightarrow> pyval \<Rightarrow> py_error + real" where
  "py_float sys v =
     (case v of
        PNum r \<Rightarrow> Inr r
      | PStr s \<Rightarrow> (case float_of_str sys s of None \<Rightarrow> Inl ValueError | Some r \<Rightarrow> Inr r)
      | PNone \<Rightarrow> Inl TypeError)"

text \<open>\<^verbatim>\<open>d.get(k, default)\<close>.\<close>

definition dict_get :: "(string \<times> 'a) list \<Rightarrow> string \<Rightarrow> 'a \<Rightarrow> 'a" where
  "dict_get d k dflt = (case map_of d k of None \<Rightarrow> dflt | Some v \<Rightarrow> v)"

text \<open>\<^verbatim>\<open>if user_history: ... else: ...\<close>: both \<^verbatim>\<open>None\<close> and the empty dictionary are false.\<close>

definition if_history :: "history option \<Rightarrow> (history \<Rightarrow> 'a) \<Rightarrow> 'a \<Rightarrow> 'a" where
  "if_history user_history f g =
     (case user_history of None \<Rightarrow> g | Some d \<Rightarrow> if d = [] then g else f d)"

text \<open>\<^verbatim>\<open>sub in s\<close> on strings.\<close>

fun str_contains :: "string \<Rightarrow> string \<Rightarrow> bool" where
  "str_contains sub [] = (sub = [])"
| "str_contains sub (c # cs) = (take (length sub) (c # cs) = sub \<or> str_contains sub cs)"

text \<open>Rounding to the nearest integer, ties to the even one: the rule of \<^verbatim>\<open>round\<close> and of
  the format \<^verbatim>\<open>.0f\<close>.\<close>

definition round_half_even :: "real \<Rightarrow> int" where
  "round_half_even x =
     (let f = \<lfloor>x\<rfloor>; d = x - of_int f
      in if d < 1 / 2 then f else if 1 / 2 < d then f + 1 else if even f then f else f + 1)"

text \<open>\<^verbatim>\<open>round(x, ndigits)\<close>.\<close>

definition py_round :: "real \<Rightarrow> nat \<Rightarrow> real" where
  "py_round x ndigits = of_int (round_half_even (x * 10 ^ ndigits)) / 10 ^ ndigits"

fun str_nat :: "nat \<Rightarrow> string" where
  "str_nat n =
     (if n < 10 then [''0123456789'' ! n]
      else str_nat (n div 10) @ [''0123456789'' ! (n mod 10)])"

declare str_nat.simps [simp del]

text \<open>\<^verbatim>\<open>f"{x:.0f}"\<close>.\<close>

definition fmt_0f :: "real \<Rightarrow> string" where
  "fmt_0f x = (if x < 0 then ''-'' else '''') @ str_nat (nat (round_half_even \<bar>x\<bar>))"

subsection \<open>The sub-scorers\<close>

text \<open>\<^verbatim>\<open>_compute_location_risk\<close> (lines 173-179): one Beta draw, \<open>Beta(2, 8)\<close> for the listed
  countries and \<open>Beta(5, 5)\<close> otherwise; a missing \<^verbatim>\<open>'location'\<close> is the empty dictionary.\<close>

definition compute_location_risk :: "'w sys \<Rightarrow> transaction \<Rightarrow> 'w \<Rightarrow> real \<times> 'w" where
  "compute_location_risk sys transaction_data w =
     (let loc = (case location transaction_data of None \<Rightarrow> \<lparr>country = None\<rparr> | Some l \<Rightarrow> l)
      in if country loc \<in> set [Some ''NG'', Some ''KE'', Some ''GH'', Some ''ZA'']
         then random_beta sys 2 8 w
         else random_beta sys 5 5 w)"

text \<open>\<^verbatim>\<open>_compute_device_risk\<close> (lines 181-189): a missing \<^verbatim>\<open>'deviceInfo'\<close> is the empty
  dictionary and a missing \<^verbatim>\<open>'userAgent'\<close> the empty string.\<close>

definition compute_device_risk :: "'w sys \<Rightarrow> transaction \<Rightarrow> 'w \<Rightarrow> real \<times> 'w" where
  "compute_device_risk sys transaction_data w =
     (let device = (case deviceInfo transaction_data of None \<Rightarrow> \<lparr>userAgent = None\<rparr> | Some d \<Rightarrow> d);
          user_agent = (case userAgent device of None \<Rightarrow> '''' | Some s \<Rightarrow> s)
      in if str_contains ''Mobile'' user_agent \<and> str_contains ''Android'' user_agent
         then random_beta sys 2 8 w
         else random_beta sys 4 6 w)"

text \<open>\<^verbatim>\<open>_compute_velocity_risk\<close> (lines 191-199): without a history the constant \<open>0.1\<close> and
  no draw.\<close>

definition compute_velocity_risk ::
  "'w sys \<Rightarrow> transaction \<Rightarrow> history option \<Rightarrow> 'w \<Rightarrow> real \<times> 'w" where
  "compute_velocity_risk sys transaction_data user_history w =
     if_history user_history
       (\<lambda>d. let recent_tx_count = dict_get d ''recent_tx_count'' 0
            in if 10 < recent_tx_count then random_beta sys 8 2 w else random_beta sys 2 8 w)
       (1 / 10, w)"

text \<open>\<^verbatim>\<open>_compute_behavioral_score\<close> (lines 201-207): without a history the constant \<open>0.5\<close>
  and no draw.\<close>

definition compute_behavioral_score ::
  "'w sys \<Rightarrow> transaction \<Rightarrow> history option \<Rightarrow> 'w \<Rightarrow> real \<times> 'w" where
  "compute_behavioral_score sys transaction_data user_history w =
     if_history user_history (\<lambda>d. random_beta sys 6 4 w) (1 / 2, w)"

subsection \<open>Feature extraction\<close>

text \<open>\<^verbatim>\<open>self.feature_columns\<close> (lines 28-33).\<close>

definition feature_columns :: "string list" where
  "feature_columns =
     [''transaction_amount'', ''hour_of_day'', ''day_of_week'',
      ''user_age_days'', ''previous_transactions'', ''avg_transaction_amount'',
      ''location_risk_score'', ''device_risk_score'', ''velocity_score'',
      ''behavioral_score'', ''time_since_last_tx'', ''amount_deviation'']"

text \<open>\<^verbatim>\<open>extract_features\<close> (lines 142-171). The dictionary \<^verbatim>\<open>features\<close> is returned with its
  keys in the order of their assignment; the world state is threaded through the two clock
  reads and the four sub-scorers in the order of the statements.\<close>

definition extract_features ::
  "'w sys \<Rightarrow> transaction \<Rightarrow> history option \<Rightarrow> 'w \<Rightarrow> py_error + (features \<times> 'w)" where
  "extract_features sys transaction_data user_history w0 =
     (case py_float sys (case amount transaction_data of None \<Rightarrow> PNum 0 | Some v \<Rightarrow> v) of
        Inl e \<Rightarrow> Inl e
      | Inr transaction_amount \<Rightarrow>
          (let (now1, w1) = datetime_now sys w0;
               hour_of_day = of_int (hour now1);
               (now2, w2) = datetime_now sys w1;
               day_of_week = of_int (weekday now2);
               (user_age_days, previous_transactions, avg_transaction_amount) =
                 if_history user_history
                   (\<lambda>d. (dict_get d ''account_age_days'' 1,
                         dict_get d ''transaction_count'' 0,
                         dict_get d ''avg_amount'' transaction_amount))
                   (1, 0, transaction_amount);
               (location_risk_score, w3) = compute_location_risk sys transaction_data w2;
               (device_risk_score, w4) = compute_device_risk sys transaction_data w3;
               (velocity_score, w5) = compute_velocity_risk sys transaction_data user_history w4;
               (behavioral_score, w6) =
                 compute_behavioral_score sys transaction_data user_history w5;
               time_since_last_tx =
                 if_history user_history (\<lambda>d. dict_get d ''hours_since_last_tx'' 24) 24;
               amount_deviation = \<bar>transaction_amount - avg_transaction_amount\<bar>
           in Inr ([(''transaction_amount'', transaction_amount),
                    (''hour_of_day'', hour_of_day),
                    (''day_of_week'', day_of_week),
                    (''user_age_days'', user_age_days),
                    (''previous_transactions'', previous_transactions),
                    (''avg_transaction_amount'', avg_transaction_amount),
                    (''location_risk_score'', location_risk_score),
                    (''device_risk_score'', device_risk_score),
                    (''velocity_score'', velocity_score),
                    (''behavioral_score'', behavioral_score),
                    (''time_since_last_tx'', time_since_last_tx),
                    (''amount_deviation'', amount_deviation)], w6)))"

subsection \<open>Scoring\<close>

text \<open>\<^verbatim>\<open>pd.DataFrame([features])[self.feature_columns]\<close>: the values of the named columns, in
  the order of the names; a missing column raises \<^verbatim>\<open>KeyError\<close>.\<close>

fun select_columns :: "features \<Rightarrow> string list \<Rightarrow> py_error + real list" where
  "select_columns f [] = Inr []"
| "select_columns f (c # cs) =
     (case map_of f c of
        None \<Rightarrow> Inl KeyError
      | Some v \<Rightarrow> (case select_columns f cs of Inl e \<Rightarrow> Inl e | Inr vs \<Rightarrow> Inr (v # vs)))"

text \<open>\<^verbatim>\<open>features[k]\<close>.\<close>

definition dict_item :: "(string \<times> 'a) list \<Rightarrow> string \<Rightarrow> py_error + 'a" where
  "dict_item d k = (case map_of d k of None \<Rightarrow> Inl KeyError | Some v \<Rightarrow> Inr v)"

text \<open>The \<^verbatim>\<open>if\<close>/\<^verbatim>\<open>elif\<close>/\<^verbatim>\<open>else\<close> of \<^verbatim>\<open>predict_fraud\<close> that sets \<^verbatim>\<open>risk_level\<close> and
  \<^verbatim>\<open>decision\<close>.\<close>

definition risk_decision :: "real \<Rightarrow> string \<times> string" where
  "risk_decision fraud_probability =
     (if fraud_probability < 3 / 10 then (''LOW'', ''APPROVE'')
      else if fraud_probability < 7 / 10 then (''MEDIUM'', ''REVIEW'')
      else (''HIGH'', ''BLOCK''))"

text \<open>\<^verbatim>\<open>predict_fraud\<close> (lines 209-253): the first exception raised ends the call; the
  returned dictionary is built after the second \<^verbatim>\<open>time.time()\<close>, and its last entry reads
  the clock once more.\<close>

definition predict_fraud ::
  "'w sys \<Rightarrow> transaction \<Rightarrow> history option \<Rightarrow> 'w \<Rightarrow>
     py_error + ((string \<times> resval) list \<times> 'w)" where
  "predict_fraud sys transaction_data user_history w0 =
     (let (start_time, w1) = time_time sys w0
      in case extract_features sys transaction_data user_history w1 of
           Inl e \<Rightarrow> Inl e
         | Inr (features, w2) \<Rightarrow>
      (case select_columns features feature_columns of
           Inl e \<Rightarrow> Inl e
         | Inr feature_df \<Rightarrow>
      (case scaler_transform sys feature_df of
           Inl e \<Rightarrow> Inl e
         | Inr feature_scaled \<Rightarrow>
      (case rf_predict_proba sys feature_scaled of
           Inl e \<Rightarrow> Inl e
         | Inr rf_prob \<Rightarrow>
      (case gb_predict_proba sys feature_scaled of
           Inl e \<Rightarrow> Inl e
         | Inr gb_prob \<Rightarrow>
      (let fraud_probability = (rf_prob + gb_prob) / 2;
           (risk_level, decision) = risk_decision fraud_probability;
           (end_time, w3) = time_time sys w2;
           processing_time = (end_time - start_time) * 1000
       in case dict_item features ''behavioral_score'' of
            Inl e \<Rightarrow> Inl e
          | Inr behavioral_score \<Rightarrow>
       (case dict_item features ''location_risk_score'' of
            Inl e \<Rightarrow> Inl e
          | Inr location_risk_score \<Rightarrow>
       (case dict_item features ''device_risk_score'' of
            Inl e \<Rightarrow> Inl e
          | Inr device_risk_score \<Rightarrow>
       (case dict_item features ''velocity_score'' of
            Inl e \<Rightarrow> Inl e
          | Inr velocity_score \<Rightarrow>
       (let (now3, w4) = datetime_now sys w3
        in Inr ([(''riskScore'', RFloat (py_round fraud_probability 3)),
                 (''riskLevel'', RStr risk_level),
                 (''decision'', RStr decision),
                 (''confidence'',
                    RFloat (py_round (max fraud_probability (1 - fraud_probability)) 3)),
                 (''processingTime'', RStr (fmt_0f processing_time @ ''ms'')),
                 (''features'', RDict
                    [(''behavioralScore'', RFloat (py_round behavioral_score 3)),
                     (''locationScore'', RFloat (py_round (1 - location_risk_score) 3)),
                     (''deviceScore'', RFloat (py_round (1 - device_risk_score) 3)),
                     (''velocityScore'', RFloat (py_round (1 - velocity_score) 3))]),
                 (''timestamp'', RStr (isoformat now3))], w4)))))))))))"

subsection \<open>The normalizer of the specification\<close>

text \<open>Modelled from the spec: the fitted scaler behind \<^verbatim>\<open>self.scaler.transform\<close> is a
  scikit-learn \<^verbatim>\<open>StandardScaler\<close>, whose code is not part of the repository's source, and the
  source has no inverse of it. Section 4.3 of the specification gives
  \<^verbatim>\<open>vector'[i] = (vector[i] - params.mean[i]) / params.std[i]\<close> for \<^verbatim>\<open>normalize\<close> (here
  \<open>normalize_vec\<close>), failing when the parameters were fitted on a different field set;
  \<open>normalize_inverse\<close> is the map that undoes it,
  \<^verbatim>\<open>vector[i] * params.std[i] + params.mean[i]\<close>. Failure is \<open>None\<close>.\<close>

record normalization_params =
  mean :: "real list"
  std :: "real list"

definition normalize_vec :: "real list \<Rightarrow> normalization_params \<Rightarrow> real list option" where
  "normalize_vec vector params =
     (if length (mean params) = length vector \<and> length (std params) = length vector
      then Some (map (\<lambda>i. (vector ! i - mean params ! i) / std params ! i) [0..<length vector])
      else None)"

definition normalize_inverse :: "real list \<Rightarrow> normalization_params \<Rightarrow> real list option" where
  "normalize_inverse vector params =
     (if length (mean params) = length vector \<and> length (std params) = length vector
      then Some (map (\<lambda>i. vector ! i * std params ! i + mean params ! i) [0..<length vector])
      else None)"

subsection \<open>Concrete inputs\<close>

text \<open>The transaction and the history of the module's \<^verbatim>\<open>__main__\<close> block (the timestamp is
  one value of \<^verbatim>\<open>datetime.now().isoformat()\<close>).\<close>

definition test_transaction :: transaction where
  "test_transaction =
     \<lparr>amount = Some (PNum 1000),
      tx_type = Some ''transfer'',
      timestamp = Some ''2024-05-01T10:15:00'',
      location = Some \<lparr>country = Some ''NG''\<rparr>,
      deviceInfo = Some \<lparr>userAgent = Some ''Mozilla/5.0 (Mobile; Android)''\<rparr>\<rparr>"

definition test_history :: history where
  "test_history =
     [(''account_age_days'', 30), (''transaction_count'', 15), (''avg_amount'', 500),
      (''recent_tx_count'', 2), (''hours_since_last_tx'', 6)]"

text \<open>A stub environment for concrete runs. The world is the number of clock reads and random
  draws made so far; \<^verbatim>\<open>time.time()\<close> reads that number as milliseconds, every
  \<^verbatim>\<open>datetime.now()\<close> is a Wednesday at 14 h, every Beta draw is \<open>sample\<close>, no string parses
  as a float, the scaler is the identity and the two classifiers answer \<open>rf\<close> and \<open>gb\<close>.\<close>

definition stub_sys :: "real \<Rightarrow> real \<Rightarrow> real \<Rightarrow> nat sys" where
  "stub_sys sample rf gb =
     \<lparr>time_time = (\<lambda>w. (of_nat w / 1000, Suc w)),
      datetime_now = (\<lambda>w. (\<lparr>hour = 14, weekday = 2, isoformat = ''2024-05-01T14:00:00''\<rparr>, Suc w)),
      random_beta = (\<lambda>a b w. (sample, Suc w)),
      float_of_str = (\<lambda>s. None),
      scaler_transform = (\<lambda>v. Inr v),
      rf_predict_proba = (\<lambda>v. Inr rf),
      gb_predict_proba = (\<lambda>v. Inr gb)\<rparr>"

section \<open>Lemmas\<close>

subsection \<open>Rounding\<close>

lemma round_half_even_of_int: "round_half_even (of_int k) = k"
  by (simp add: round_half_even_def)

lemma round_half_even_range:
  "round_half_even x = \<lfloor>x\<rfloor> \<or> round_half_even x = \<lfloor>x\<rfloor> + 1"
  by (simp add: round_half_even_def Let_def)

lemma round_half_even_mono:
  assumes xy: "x \<le> y"
  shows "round_half_even x \<le> round_half_even y"
proof (cases "\<lfloor>x\<rfloor> = \<lfloor>y\<rfloor>")
  case True
  then have "x - of_int \<lfloor>x\<rfloor> \<le> y - of_int \<lfloor>y\<rfloor>"
    using xy by simp
  with True show ?thesis
    by (auto simp: round_half_even_def Let_def)
next
  case False
  have "\<lfloor>x\<rfloor> \<le> \<lfloor>y\<rfloor>"
    using xy by (rule floor_mono)
  with False have "\<lfloor>x\<rfloor> + 1 \<le> \<lfloor>y\<rfloor>"
    by simp
  moreover have "round_half_even x \<le> \<lfloor>x\<rfloor> + 1"
    using round_half_even_range [of x] by auto
  moreover have "\<lfloor>y\<rfloor> \<le> round_half_even y"
    using round_half_even_range [of y] by auto
  ultimately show ?thesis
    by linarith
qed

lemma round_half_even_close: "\<bar>of_int (round_half_even x) - x\<bar> \<le> 1 / 2"
  unfolding round_half_even_def Let_def
  by (auto split: if_splits)

lemma py_round_grid: "\<exists>k::int. py_round x 3 = of_int k / 1000"
  by (auto simp: py_round_def)

lemma py_round_close: "\<bar>py_round x 3 - x\<bar> \<le> 1 / 2000"
proof -
  have "\<bar>of_int (round_half_even (x * 1000)) - x * 1000\<bar> \<le> 1 / 2"
    by (rule round_half_even_close)
  then show ?thesis
    by (simp add: py_round_def field_simps abs_le_iff)
qed

lemma py_round_mono: "x \<le> y \<Longrightarrow> py_round x n \<le> py_round y n"
  by (simp add: py_round_def round_half_even_mono divide_right_mono)

lemma py_round_unit: "0 \<le> x \<Longrightarrow> x \<le> 1 \<Longrightarrow> 0 \<le> py_round x 3 \<and> py_round x 3 \<le> 1"
  using py_round_mono [of 0 x 3] py_round_mono [of x 1 3]
  by (simp add: py_round_def round_half_even_def)

lemma py_round_upper_half:
  "1 / 2 \<le> x \<Longrightarrow> x \<le> 1 \<Longrightarrow> 1 / 2 \<le> py_round x 3 \<and> py_round x 3 \<le> 1"
  using py_round_mono [of "1 / 2" x 3] py_round_mono [of x 1 3]
  by (simp add: py_round_def round_half_even_def)

subsection \<open>Feature extraction\<close>

text \<open>A successful extraction, spelled out: the amount converted by \<^verbatim>\<open>float\<close>, the two clock
  reads, the history fields or their defaults, and the four sub-scores.\<close>

lemma extract_features_Inr:
  assumes "extract_features sys tx h w = Inr (f, w')"
  shows "\<exists>a w2 w3 w4 w5.
    py_float sys (case amount tx of None \<Rightarrow> PNum 0 | Some v \<Rightarrow> v) = Inr a \<and>
    f = [(''transaction_amount'', a),
         (''hour_of_day'', of_int (hour (fst (datetime_now sys w)))),
         (''day_of_week'', of_int (weekday (fst (datetime_now sys (snd (datetime_now sys w)))))),
         (''user_age_days'', if_history h (\<lambda>d. dict_get d ''account_age_days'' 1) 1),
         (''previous_transactions'', if_history h (\<lambda>d. dict_get d ''transaction_count'' 0) 0),
         (''avg_transaction_amount'', if_history h (\<lambda>d. dict_get d ''avg_amount'' a) a),
         (''location_risk_score'', fst (compute_location_risk sys tx w2)),
         (''device_risk_score'', fst (compute_device_risk sys tx w3)),
         (''velocity_score'', fst (compute_velocity_risk sys tx h w4)),
         (''behavioral_score'', fst (compute_behavioral_score sys tx h w5)),
         (''time_since_last_tx'', if_history h (\<lambda>d. dict_get d ''hours_since_last_tx'' 24) 24),
         (''amount_deviation'',
            \<bar>a - if_history h (\<lambda>d. dict_get d ''avg_amount'' a) a\<bar>)]"
  using assms
  by (auto simp: extract_features_def Let_def case_prod_beta if_history_def
      split: sum.splits option.splits)

lemma extract_features_total:
  assumes "py_float sys (case amount tx of None \<Rightarrow> PNum 0 | Some v \<Rightarrow> v) = Inr a"
  shows "\<exists>f w'. extract_features sys tx h w = Inr (f, w')"
  using assms
  by (simp add: extract_features_def Let_def case_prod_beta)

lemma extract_features_error:
  assumes "py_float sys (case amount tx of None \<Rightarrow> PNum 0 | Some v \<Rightarrow> v) = Inl e"
  shows "extract_features sys tx h w = Inl e"
  using assms
  by (simp add: extract_features_def)

lemma select_columns_extracted:
  assumes "extract_features sys tx h w = Inr (f, w')"
  shows "select_columns f feature_columns = Inr (map snd f)"
  using extract_features_Inr [OF assms]
  by (auto simp: feature_columns_def)

lemma dict_item_extracted:
  assumes "extract_features sys tx h w = Inr (f, w')"
  shows "\<exists>beh loc dev vel.
    dict_item f ''behavioral_score'' = Inr beh \<and>
    dict_item f ''location_risk_score'' = Inr loc \<and>
    dict_item f ''device_risk_score'' = Inr dev \<and>
    dict_item f ''velocity_score'' = Inr vel"
  using extract_features_Inr [OF assms]
  by (auto simp: dict_item_def)

subsection \<open>Scoring\<close>

text \<open>A returned result, spelled out.\<close>

lemma predict_fraud_Inr:
  assumes "predict_fraud sys tx h w = Inr (r, w')"
  shows "\<exists>f w2 scaled p1 p2 beh loc dev vel.
    extract_features sys tx h (snd (time_time sys w)) = Inr (f, w2) \<and>
    scaler_transform sys (map snd f) = Inr scaled \<and>
    rf_predict_proba sys scaled = Inr p1 \<and>
    gb_predict_proba sys scaled = Inr p2 \<and>
    map_of f ''behavioral_score'' = Some beh \<and>
    map_of f ''location_risk_score'' = Some loc \<and>
    map_of f ''device_risk_score'' = Some dev \<and>
    map_of f ''velocity_score'' = Some vel \<and>
    r = [(''riskScore'', RFloat (py_round ((p1 + p2) / 2) 3)),
         (''riskLevel'', RStr (fst (risk_decision ((p1 + p2) / 2)))),
         (''decision'', RStr (snd (risk_decision ((p1 + p2) / 2)))),
         (''confidence'', RFloat (py_round (max ((p1 + p2) / 2) (1 - (p1 + p2) / 2)) 3)),
         (''processingTime'',
            RStr (fmt_0f ((fst (time_time sys w2) - fst (time_time sys w)) * 1000) @ ''ms'')),
         (''features'', RDict
            [(''behavioralScore'', RFloat (py_round beh 3)),
             (''locationScore'', RFloat (py_round (1 - loc) 3)),
             (''deviceScore'', RFloat (py_round (1 - dev) 3)),
             (''velocityScore'', RFloat (py_round (1 - vel) 3))]),
         (''timestamp'', RStr (isoformat (fst (datetime_now sys (snd (time_time sys w2))))))] \<and>
    w' = snd (datetime_now sys (snd (time_time sys w2)))"
proof -
  obtain f w2 where ex: "extract_features sys tx h (snd (time_time sys w)) = Inr (f, w2)"
    using assms
    by (auto simp: predict_fraud_def Let_def case_prod_beta split: sum.splits)
  have sel: "select_columns f feature_columns = Inr (map snd f)"
    using ex by (rule select_columns_extracted)
  show ?thesis
    using assms ex sel
    by (auto simp: predict_fraud_def Let_def case_prod_beta dict_item_def
        split: sum.splits option.splits)
qed

text \<open>Scoring returns whenever the scaler accepts the extracted vector and both classifiers
  accept the scaled one.\<close>

lemma predict_fraud_returns:
  assumes ex: "extract_features sys tx h (snd (time_time sys w)) = Inr (f, w2)"
    and s: "scaler_transform sys (map snd f) = Inr s"
    and p1: "rf_predict_proba sys s = Inr p1"
    and p2: "gb_predict_proba sys s = Inr p2"
  shows "\<exists>r w'. predict_fraud sys tx h w = Inr (r, w')"
proof -
  have sel: "select_columns f feature_columns = Inr (map snd f)"
    using ex by (rule select_columns_extracted)
  obtain beh loc dev vel where
    "dict_item f ''behavioral_score'' = Inr beh"
    "dict_item f ''location_risk_score'' = Inr loc"
    "dict_item f ''device_risk_score'' = Inr dev"
    "dict_item f ''velocity_score'' = Inr vel"
    using dict_item_extracted [OF ex] by blast
  then show ?thesis
    using ex sel s p1 p2
    by (simp add: predict_fraud_def Let_def case_prod_beta)
qed

lemma fmt_0f_nonneg: "0 \<le> x \<Longrightarrow> fmt_0f x = str_nat (nat (round_half_even x))"
  by (simp add: fmt_0f_def)

lemma predict_fraud_error:
  assumes "py_float sys (case amount tx of None \<Rightarrow> PNum 0 | Some v \<Rightarrow> v) = Inl e"
  shows "predict_fraud sys tx h w = Inl e"
  using extract_features_error [OF assms]
  by (simp add: predict_fraud_def Let_def case_prod_beta)

text \<open>The definitions a concrete run unfolds.\<close>

lemmas run_defs =
  predict_fraud_def extract_features_def stub_sys_def test_transaction_def
  test_history_def py_float_def if_history_def dict_get_def dict_item_def
  compute_location_risk_def compute_device_risk_def compute_velocity_risk_def
  compute_behavioral_score_def feature_columns_def risk_decision_def py_round_def
  round_half_even_def fmt_0f_def str_nat.simps Let_def

section \<open>Input validation\<close>

text \<open>
  Claim C1, as the program has it. The amount is not validated: a missing amount is read as
  \<open>0\<close> and a negative number is kept as it is; extraction succeeds, and scoring returns a
  result whenever the loaded scaler accepts the feature vector of the call and the two
  classifiers accept the scaled vector. Scoring fails, and returns no result, where \<^verbatim>\<open>float\<close> rejects the amount: \<^verbatim>\<open>None\<close>
  (\<^verbatim>\<open>TypeError\<close>) or a string that does not parse (\<^verbatim>\<open>ValueError\<close>).
\<close>

theorem C1_amount_not_validated:
  "(amount tx = None \<or> (\<exists>a. amount tx = Some (PNum a) \<and> a < 0) \<longrightarrow>
      (\<exists>f w1. extract_features sys tx h w = Inr (f, w1) \<and>
         map_of f ''transaction_amount'' =
           Some (case amount tx of Some (PNum a) \<Rightarrow> a | _ \<Rightarrow> 0)) \<and>
      (\<exists>g w2. extract_features sys tx h (snd (time_time sys w)) = Inr (g, w2) \<and>
         (\<forall>s p1 p2.
            scaler_transform sys (map snd g) = Inr s \<and>
            rf_predict_proba sys s = Inr p1 \<and>
            gb_predict_proba sys s = Inr p2 \<longrightarrow>
            (\<exists>r w'. predict_fraud sys tx h w = Inr (r, w'))))) \<and>
   (amount tx = Some PNone \<longrightarrow> predict_fraud sys tx h w = Inl TypeError) \<and>
   (amount tx = Some (PStr s) \<and> float_of_str sys s = None \<longrightarrow>
      predict_fraud sys tx h w = Inl ValueError)"
proof -
  have accepted:
    "(\<exists>f w1. extract_features sys tx h w = Inr (f, w1) \<and>
         map_of f ''transaction_amount'' =
           Some (case amount tx of Some (PNum a) \<Rightarrow> a | _ \<Rightarrow> 0)) \<and>
      (\<exists>g w2. extract_features sys tx h (snd (time_time sys w)) = Inr (g, w2) \<and>
         (\<forall>s p1 p2.
            scaler_transform sys (map snd g) = Inr s \<and>
            rf_predict_proba sys s = Inr p1 \<and>
            gb_predict_proba sys s = Inr p2 \<longrightarrow>
            (\<exists>r w'. predict_fraud sys tx h w = Inr (r, w'))))"
    if given: "amount tx = None \<or> (\<exists>a. amount tx = Some (PNum a) \<and> a < 0)"
  proof -
    define a where "a = (case amount tx of Some (PNum a) \<Rightarrow> a | _ \<Rightarrow> 0)"
    have conv: "py_float sys (case amount tx of None \<Rightarrow> PNum 0 | Some v \<Rightarrow> v) = Inr a"
      using given by (auto simp: py_float_def a_def)
    obtain f w1 where ex: "extract_features sys tx h w = Inr (f, w1)"
      using extract_features_total [OF conv] by blast
    have "map_of f ''transaction_amount'' = Some a"
      using extract_features_Inr [OF ex] conv by auto
    with ex have first: "\<exists>f w1. extract_features sys tx h w = Inr (f, w1) \<and>
         map_of f ''transaction_amount'' = Some a"
      by blast
    obtain g w2 where call: "extract_features sys tx h (snd (time_time sys w)) = Inr (g, w2)"
      using extract_features_total [OF conv] by blast
    have "\<exists>r w'. predict_fraud sys tx h w = Inr (r, w')"
      if "scaler_transform sys (map snd g) = Inr s \<and>
          rf_predict_proba sys s = Inr p1 \<and>
          gb_predict_proba sys s = Inr p2" for s p1 p2
      using predict_fraud_returns [OF call] that by blast
    with call have second:
      "\<exists>g w2. extract_features sys tx h (snd (time_time sys w)) = Inr (g, w2) \<and>
         (\<forall>s p1 p2.
            scaler_transform sys (map snd g) = Inr s \<and>
            rf_predict_proba sys s = Inr p1 \<and>
            gb_predict_proba sys s = Inr p2 \<longrightarrow>
            (\<exists>r w'. predict_fraud sys tx h w = Inr (r, w')))"
      by blast
    from first second show ?thesis
      unfolding a_def by blast
  qed
  have none: "predict_fraud sys tx h w = Inl TypeError" if "amount tx = Some PNone"
    using that by (intro predict_fraud_error) (simp add: py_float_def)
  have unparsed: "predict_fraud sys tx h w = Inl ValueError"
    if "amount tx = Some (PStr s) \<and> float_of_str sys s = None"
    using that by (intro predict_fraud_error) (simp add: py_float_def)
  from accepted none unparsed show ?thesis
    by blast
qed

theorem C1_amount_not_validated_witness:
  "(let sys = (stub_sys (1 / 5) (4 / 5) (2 / 5))
          \<lparr>scaler_transform := (\<lambda>v. if length v = 12 then Inr v else Inl ModelError)\<rparr>;
        tx = \<lparr>amount = Some (PNum (- 50)), tx_type = None, timestamp = None,
              location = None, deviceInfo = None\<rparr>;
        vec = [- 50, 14, 2, 1, 0, - 50, 1 / 5, 1 / 5, 1 / 10, 1 / 2, 24, 0]
    in (amount tx = None \<or> (\<exists>a. amount tx = Some (PNum a) \<and> a < 0)) \<and>
       scaler_transform sys [] = Inl ModelError \<and>
       scaler_transform sys vec = Inr vec \<and>
       rf_predict_proba sys vec = Inr (4 / 5) \<and>
       gb_predict_proba sys vec = Inr (2 / 5) \<and>
       (\<exists>f w1. extract_features sys tx None 0 = Inr (f, w1) \<and>
          map_of f ''transaction_amount'' = Some (- 50)) \<and>
       (\<exists>g w2. extract_features sys tx None (snd (time_time sys 0)) = Inr (g, w2) \<and>
          map snd g = vec) \<and>
       (\<exists>r w'. predict_fraud sys tx None 0 = Inr (r, w')) \<and>
       predict_fraud sys (tx\<lparr>amount := Some PNone\<rparr>) None 0 = Inl TypeError \<and>
       predict_fraud sys (tx\<lparr>amount := Some (PStr ''abc'')\<rparr>) None 0 = Inl ValueError)"
proof -
  let ?sys = "(stub_sys (1 / 5) (4 / 5) (2 / 5))
          \<lparr>scaler_transform := (\<lambda>v. if length v = 12 then Inr v else Inl ModelError)\<rparr>"
  let ?tx = "\<lparr>amount = Some (PNum (- 50)), tx_type = None, timestamp = None,
              location = None, deviceInfo = None\<rparr>"
  let ?vec = "[- 50, 14, 2, 1, 0, - 50, 1 / 5, 1 / 5, 1 / 10, 1 / 2, 24, 0 :: real]"
  have neg: "amount ?tx = None \<or> (\<exists>a. amount ?tx = Some (PNum a) \<and> a < 0)"
    by simp
  have model: "scaler_transform ?sys [] = Inl ModelError"
    "scaler_transform ?sys ?vec = Inr ?vec"
    "rf_predict_proba ?sys ?vec = Inr (4 / 5)"
    "gb_predict_proba ?sys ?vec = Inr (2 / 5)"
    by (simp_all add: stub_sys_def)
  have call: "\<exists>w2. extract_features ?sys ?tx None (snd (time_time ?sys 0)) =
      Inr ([(''transaction_amount'', - 50), (''hour_of_day'', 14), (''day_of_week'', 2),
            (''user_age_days'', 1), (''previous_transactions'', 0),
            (''avg_transaction_amount'', - 50), (''location_risk_score'', 1 / 5),
            (''device_risk_score'', 1 / 5), (''velocity_score'', 1 / 10),
            (''behavioral_score'', 1 / 2), (''time_since_last_tx'', 24),
            (''amount_deviation'', 0)], w2)"
    by (simp add: run_defs)
  have accepted: "(\<exists>f w1. extract_features ?sys ?tx None 0 = Inr (f, w1) \<and>
         map_of f ''transaction_amount'' =
           Some (case amount ?tx of Some (PNum a) \<Rightarrow> a | _ \<Rightarrow> 0)) \<and>
      (\<exists>g w2. extract_features ?sys ?tx None (snd (time_time ?sys 0)) = Inr (g, w2) \<and>
         (\<forall>s p1 p2.
            scaler_transform ?sys (map snd g) = Inr s \<and>
            rf_predict_proba ?sys s = Inr p1 \<and>
            gb_predict_proba ?sys s = Inr p2 \<longrightarrow>
            (\<exists>r w'. predict_fraud ?sys ?tx None 0 = Inr (r, w'))))"
    using C1_amount_not_validated [where tx = ?tx and sys = ?sys and h = None and w = 0] neg
    by blast
  then have a: "\<exists>f w1. extract_features ?sys ?tx None 0 = Inr (f, w1) \<and>
          map_of f ''transaction_amount'' = Some (- 50)"
    by simp
  obtain g w2 where g: "extract_features ?sys ?tx None (snd (time_time ?sys 0)) = Inr (g, w2)"
    and returns: "\<forall>s p1 p2.
            scaler_transform ?sys (map snd g) = Inr s \<and>
            rf_predict_proba ?sys s = Inr p1 \<and>
            gb_predict_proba ?sys s = Inr p2 \<longrightarrow>
            (\<exists>r w'. predict_fraud ?sys ?tx None 0 = Inr (r, w'))"
    using accepted by blast
  have vec: "map snd g = ?vec"
    using call g by auto
  have b: "\<exists>g w2. extract_features ?sys ?tx None (snd (time_time ?sys 0)) = Inr (g, w2) \<and>
          map snd g = ?vec"
    by (rule exI [of _ g], rule exI [of _ w2], rule conjI [OF g vec])
  have c: "\<exists>r w'. predict_fraud ?sys ?tx None 0 = Inr (r, w')"
    using returns [unfolded vec, rule_format, OF conjI [OF model(2) conjI [OF model(3) model(4)]]] .
  have d: "predict_fraud ?sys (?tx\<lparr>amount := Some PNone\<rparr>) None 0 = Inl TypeError"
    using C1_amount_not_validated [where tx = "?tx\<lparr>amount := Some PNone\<rparr>" and sys = ?sys
        and h = None and w = 0]
    by simp
  have e: "predict_fraud ?sys (?tx\<lparr>amount := Some (PStr ''abc'')\<rparr>) None 0 = Inl ValueError"
    using C1_amount_not_validated [where tx = "?tx\<lparr>amount := Some (PStr ''abc'')\<rparr>"
        and sys = ?sys and h = None and w = 0 and s = "''abc''"]
    by (simp add: stub_sys_def)
  show ?thesis
    unfolding Let_def
    by (intro conjI neg model a b c d e)
qed

text \<open>The claim as the specification states it fails: with amount \<open>-50\<close> extraction keeps
  \<open>-50\<close> as the transaction amount, and scoring returns a result.\<close>

theorem C1_negative_amount_counterexample:
  "extract_features (stub_sys (1 / 5) (4 / 5) (2 / 5))
     \<lparr>amount = Some (PNum (- 50)), tx_type = None, timestamp = None,
      location = None, deviceInfo = None\<rparr> None 1 =
     Inr ([(''transaction_amount'', - 50),
           (''hour_of_day'', 14),
           (''day_of_week'', 2),
           (''user_age_days'', 1),
           (''previous_transactions'', 0),
           (''avg_transaction_amount'', - 50),
           (''location_risk_score'', 1 / 5),
           (''device_risk_score'', 1 / 5),
           (''velocity_score'', 1 / 10),
           (''behavioral_score'', 1 / 2),
           (''time_since_last_tx'', 24),
           (''amount_deviation'', 0)], 5) \<and>
   predict_fraud (stub_sys (1 / 5) (4 / 5) (2 / 5))
     \<lparr>amount = Some (PNum (- 50)), tx_type = None, timestamp = None,
      location = None, deviceInfo = None\<rparr> None 0 =
     Inr ([(''riskScore'', RFloat (3 / 5)),
           (''riskLevel'', RStr ''MEDIUM''),
           (''decision'', RStr ''REVIEW''),
           (''confidence'', RFloat (3 / 5)),
           (''processingTime'', RStr ''5ms''),
           (''features'', RDict
              [(''behavioralScore'', RFloat (1 / 2)),
               (''locationScore'', RFloat (4 / 5)),
               (''deviceScore'', RFloat (4 / 5)),
               (''velocityScore'', RFloat (9 / 10))]),
           (''timestamp'', RStr ''2024-05-01T14:00:00'')], 7)"
  by (simp add: run_defs)

section \<open>The shape of the result\<close>

text \<open>With a sampler whose draws lie in \<open>[0, 1]\<close>, as Beta draws do, every sub-score lies in
  \<open>[0, 1]\<close>.\<close>

lemma sub_scores_unit:
  assumes "\<forall>a b v. 0 \<le> fst (random_beta sys a b v) \<and> fst (random_beta sys a b v) \<le> 1"
  shows "0 \<le> fst (compute_location_risk sys tx w) \<and> fst (compute_location_risk sys tx w) \<le> 1"
    and "0 \<le> fst (compute_device_risk sys tx w) \<and> fst (compute_device_risk sys tx w) \<le> 1"
    and "0 \<le> fst (compute_velocity_risk sys tx h w) \<and>
         fst (compute_velocity_risk sys tx h w) \<le> 1"
    and "0 \<le> fst (compute_behavioral_score sys tx h w) \<and>
         fst (compute_behavioral_score sys tx h w) \<le> 1"
  using assms
  by (simp_all add: compute_location_risk_def compute_device_risk_def
      compute_velocity_risk_def compute_behavioral_score_def if_history_def Let_def
      split: option.splits)

lemma extracted_scores_unit:
  assumes sampler: "\<forall>a b v. 0 \<le> fst (random_beta sys a b v) \<and> fst (random_beta sys a b v) \<le> 1"
    and ex: "extract_features sys tx h w = Inr (f, w')"
    and score: "k \<in> set [''location_risk_score'', ''device_risk_score'', ''velocity_score'',
      ''behavioral_score'']"
    and found: "map_of f k = Some x"
  shows "0 \<le> x \<and> x \<le> 1"
  using extract_features_Inr [OF ex] score found sub_scores_unit [OF sampler]
  by auto

text \<open>
  Claim C2, as the program has it. Every returned result has exactly the keys \<open>riskScore\<close>,
  \<open>riskLevel\<close>, \<open>decision\<close>, \<open>confidence\<close>, \<open>processingTime\<close>, \<open>features\<close> and \<open>timestamp\<close>, in
  this order. \<open>processingTime\<close> is a string: the milliseconds between the first
  \<^verbatim>\<open>time.time()\<close> of the call and the one read after extraction and classification,
  formatted without decimals and followed by \<open>ms\<close>; when the second read is not before the
  first, the elapsed time is non-negative and the string is a plain decimal number with no
  sign. \<open>features\<close> is the nested group of \<open>behavioralScore\<close>, \<open>locationScore\<close>,
  \<open>deviceScore\<close> and \<open>velocityScore\<close>, and \<open>timestamp\<close> is the ISO string of the last clock
  read. Level and decision are one of \<open>(LOW, APPROVE)\<close>, \<open>(MEDIUM, REVIEW)\<close>,
  \<open>(HIGH, BLOCK)\<close>. When the classifiers answer probabilities in \<open>[0, 1]\<close> and the draws of
  the sampler lie in \<open>[0, 1]\<close>, the risk score lies in \<open>[0, 1]\<close>, the confidence in
  \<open>[0.5, 1]\<close> and the four displayed sub-scores in \<open>[0, 1]\<close>.
\<close>

theorem C2_result_shape:
  assumes returned: "predict_fraud sys tx h w = Inr (r, w')"
    and sampler: "\<forall>a b v. 0 \<le> fst (random_beta sys a b v) \<and> fst (random_beta sys a b v) \<le> 1"
    and rf: "\<forall>v p. rf_predict_proba sys v = Inr p \<longrightarrow> 0 \<le> p \<and> p \<le> 1"
    and gb: "\<forall>v p. gb_predict_proba sys v = Inr p \<longrightarrow> 0 \<le> p \<and> p \<le> 1"
  shows "\<exists>g w2 risk_score risk_level decision confidence behavioral location' device velocity.
    extract_features sys tx h (snd (time_time sys w)) = Inr (g, w2) \<and>
    r = [(''riskScore'', RFloat risk_score),
         (''riskLevel'', RStr risk_level),
         (''decision'', RStr decision),
         (''confidence'', RFloat confidence),
         (''processingTime'',
            RStr (fmt_0f ((fst (time_time sys w2) - fst (time_time sys w)) * 1000) @ ''ms'')),
         (''features'', RDict
            [(''behavioralScore'', RFloat behavioral),
             (''locationScore'', RFloat location'),
             (''deviceScore'', RFloat device),
             (''velocityScore'', RFloat velocity)]),
         (''timestamp'', RStr (isoformat (fst (datetime_now sys (snd (time_time sys w2))))))] \<and>
    (fst (time_time sys w) \<le> fst (time_time sys w2) \<longrightarrow>
       0 \<le> (fst (time_time sys w2) - fst (time_time sys w)) * 1000 \<and>
       fmt_0f ((fst (time_time sys w2) - fst (time_time sys w)) * 1000) =
         str_nat (nat (round_half_even ((fst (time_time sys w2) - fst (time_time sys w)) * 1000)))) \<and>
    0 \<le> risk_score \<and> risk_score \<le> 1 \<and>
    (risk_level, decision) \<in>
      set [(''LOW'', ''APPROVE''), (''MEDIUM'', ''REVIEW''), (''HIGH'', ''BLOCK'')] \<and>
    1 / 2 \<le> confidence \<and> confidence \<le> 1 \<and>
    0 \<le> behavioral \<and> behavioral \<le> 1 \<and>
    0 \<le> location' \<and> location' \<le> 1 \<and>
    0 \<le> device \<and> device \<le> 1 \<and>
    0 \<le> velocity \<and> velocity \<le> 1"
proof -
  obtain f w2 scaled p1 p2 beh loc dev vel where
    ex: "extract_features sys tx h (snd (time_time sys w)) = Inr (f, w2)"
    and p1: "rf_predict_proba sys scaled = Inr p1"
    and p2: "gb_predict_proba sys scaled = Inr p2"
    and scores: "map_of f ''behavioral_score'' = Some beh"
      "map_of f ''location_risk_score'' = Some loc"
      "map_of f ''device_risk_score'' = Some dev"
      "map_of f ''velocity_score'' = Some vel"
    and r: "r = [(''riskScore'', RFloat (py_round ((p1 + p2) / 2) 3)),
         (''riskLevel'', RStr (fst (risk_decision ((p1 + p2) / 2)))),
         (''decision'', RStr (snd (risk_decision ((p1 + p2) / 2)))),
         (''confidence'', RFloat (py_round (max ((p1 + p2) / 2) (1 - (p1 + p2) / 2)) 3)),
         (''processingTime'',
            RStr (fmt_0f ((fst (time_time sys w2) - fst (time_time sys w)) * 1000) @ ''ms'')),
         (''features'', RDict
            [(''behavioralScore'', RFloat (py_round beh 3)),
             (''locationScore'', RFloat (py_round (1 - loc) 3)),
             (''deviceScore'', RFloat (py_round (1 - dev) 3)),
             (''velocityScore'', RFloat (py_round (1 - vel) 3))]),
         (''timestamp'', RStr (isoformat (fst (datetime_now sys (snd (time_time sys w2))))))]"
    using predict_fraud_Inr [OF returned] by blast
  define p where "p = (p1 + p2) / 2"
  define elapsed where "elapsed = (fst (time_time sys w2) - fst (time_time sys w)) * 1000"
  have "0 \<le> p1 \<and> p1 \<le> 1" "0 \<le> p2 \<and> p2 \<le> 1"
    using rf gb p1 p2 by blast+
  then have unit: "0 \<le> p" "p \<le> 1"
    by (simp_all add: p_def)
  then have upper: "1 / 2 \<le> max p (1 - p)" "max p (1 - p) \<le> 1"
    by (auto simp: max_def)
  have risk: "0 \<le> py_round p 3 \<and> py_round p 3 \<le> 1"
    using unit by (rule py_round_unit)
  have conf: "1 / 2 \<le> py_round (max p (1 - p)) 3 \<and> py_round (max p (1 - p)) 3 \<le> 1"
    using upper by (rule py_round_upper_half)
  have level: "(fst (risk_decision p), snd (risk_decision p)) \<in>
      set [(''LOW'', ''APPROVE''), (''MEDIUM'', ''REVIEW''), (''HIGH'', ''BLOCK'')]"
    by (simp add: risk_decision_def)
  have clock: "0 \<le> elapsed \<and> fmt_0f elapsed = str_nat (nat (round_half_even elapsed))"
    if "fst (time_time sys w) \<le> fst (time_time sys w2)"
  proof -
    have "0 \<le> elapsed"
      using that by (simp add: elapsed_def)
    then show ?thesis
      by (simp add: fmt_0f_nonneg)
  qed
  have "0 \<le> beh \<and> beh \<le> 1"
    using extracted_scores_unit [OF sampler ex _ scores(1)] by simp
  moreover have "0 \<le> loc \<and> loc \<le> 1"
    using extracted_scores_unit [OF sampler ex _ scores(2)] by simp
  moreover have "0 \<le> dev \<and> dev \<le> 1"
    using extracted_scores_unit [OF sampler ex _ scores(3)] by simp
  moreover have "0 \<le> vel \<and> vel \<le> 1"
    using extracted_scores_unit [OF sampler ex _ scores(4)] by simp
  ultimately have shown: "0 \<le> py_round beh 3 \<and> py_round beh 3 \<le> 1"
    "0 \<le> py_round (1 - loc) 3 \<and> py_round (1 - loc) 3 \<le> 1"
    "0 \<le> py_round (1 - dev) 3 \<and> py_round (1 - dev) 3 \<le> 1"
    "0 \<le> py_round (1 - vel) 3 \<and> py_round (1 - vel) 3 \<le> 1"
    by (simp_all add: py_round_unit)
  from ex r clock risk conf level shown show ?thesis
    unfolding p_def elapsed_def by blast
qed

theorem C2_result_shape_witness:
  "(let sys = stub_sys (1 / 5) (4 / 5) (2 / 5);
        r = [(''riskScore'', RFloat (3 / 5)),
             (''riskLevel'', RStr ''MEDIUM''),
             (''decision'', RStr ''REVIEW''),
             (''confidence'', RFloat (3 / 5)),
             (''processingTime'', RStr ''5ms''),
             (''features'', RDict
                [(''behavioralScore'', RFloat (1 / 2)),
                 (''locationScore'', RFloat (4 / 5)),
                 (''deviceScore'', RFloat (4 / 5)),
                 (''velocityScore'', RFloat (9 / 10))]),
             (''timestamp'', RStr ''2024-05-01T14:00:00'')]
    in predict_fraud sys test_transaction None 0 = Inr (r, 7) \<and>
       (\<forall>a b v. 0 \<le> fst (random_beta sys a b v) \<and> fst (random_beta sys a b v) \<le> 1) \<and>
       (\<forall>v. rf_predict_proba sys v = Inr (4 / 5)) \<and>
       (\<forall>v. gb_predict_proba sys v = Inr (2 / 5)) \<and>
       fst (time_time sys 0) = 0 \<and> fst (time_time sys 5) = 5 / 1000 \<and>
       fst (time_time sys 0) \<le> fst (time_time sys 5) \<and>
       (\<exists>g risk_score risk_level decision confidence behavioral location' device velocity.
          extract_features sys test_transaction None (snd (time_time sys 0)) = Inr (g, 5) \<and>
          r = [(''riskScore'', RFloat risk_score),
               (''riskLevel'', RStr risk_level),
               (''decision'', RStr decision),
               (''confidence'', RFloat confidence),
               (''processingTime'',
                  RStr (fmt_0f ((fst (time_time sys 5) - fst (time_time sys 0)) * 1000) @ ''ms'')),
               (''features'', RDict
                  [(''behavioralScore'', RFloat behavioral),
                   (''locationScore'', RFloat location'),
                   (''deviceScore'', RFloat device),
                   (''velocityScore'', RFloat velocity)]),
               (''timestamp'', RStr (isoformat (fst (datetime_now sys (snd (time_time sys 5))))))] \<and>
          0 \<le> (fst (time_time sys 5) - fst (time_time sys 0)) * 1000 \<and>
          fmt_0f ((fst (time_time sys 5) - fst (time_time sys 0)) * 1000) =
            str_nat (nat (round_half_even ((fst (time_time sys 5) - fst (time_time sys 0)) * 1000))) \<and>
          str_nat (nat (round_half_even ((fst (time_time sys 5) - fst (time_time sys 0)) * 1000))) =
            ''5'' \<and>
          0 \<le> risk_score \<and> risk_score \<le> 1 \<and>
          (risk_level, decision) \<in>
            set [(''LOW'', ''APPROVE''), (''MEDIUM'', ''REVIEW''), (''HIGH'', ''BLOCK'')] \<and>
          1 / 2 \<le> confidence \<and> confidence \<le> 1 \<and>
          0 \<le> behavioral \<and> behavioral \<le> 1 \<and>
          0 \<le> location' \<and> location' \<le> 1 \<and>
          0 \<le> device \<and> device \<le> 1 \<and>
          0 \<le> velocity \<and> velocity \<le> 1))"
proof -
  let ?sys = "stub_sys (1 / 5) (4 / 5) (2 / 5)"
  let ?r = "[(''riskScore'', RFloat (3 / 5)),
             (''riskLevel'', RStr ''MEDIUM''),
             (''decision'', RStr ''REVIEW''),
             (''confidence'', RFloat (3 / 5)),
             (''processingTime'', RStr ''5ms''),
             (''features'', RDict
                [(''behavioralScore'', RFloat (1 / 2)),
                 (''locationScore'', RFloat (4 / 5)),
                 (''deviceScore'', RFloat (4 / 5)),
                 (''velocityScore'', RFloat (9 / 10))]),
             (''timestamp'', RStr ''2024-05-01T14:00:00'')]"
  have run: "predict_fraud ?sys test_transaction None 0 = Inr (?r, 7)"
    by (simp add: run_defs)
  have sampler: "\<forall>a b v. 0 \<le> fst (random_beta ?sys a b v) \<and> fst (random_beta ?sys a b v) \<le> 1"
    by (simp add: stub_sys_def)
  have rf_out: "\<forall>v. rf_predict_proba ?sys v = Inr (4 / 5)"
    and gb_out: "\<forall>v. gb_predict_proba ?sys v = Inr (2 / 5)"
    unfolding stub_sys_def sys.select_convs by blast+
  have rf: "\<forall>v p. rf_predict_proba ?sys v = Inr p \<longrightarrow> 0 \<le> p \<and> p \<le> 1"
    and gb: "\<forall>v p. gb_predict_proba ?sys v = Inr p \<longrightarrow> 0 \<le> p \<and> p \<le> 1"
    by (simp_all add: stub_sys_def)
  have reads: "fst (time_time ?sys 0) = 0" "fst (time_time ?sys 5) = 5 / 1000"
    and order: "fst (time_time ?sys 0) \<le> fst (time_time ?sys 5)"
    by (simp_all add: stub_sys_def)
  have after: "\<exists>g. extract_features ?sys test_transaction None (snd (time_time ?sys 0)) = Inr (g, 5)"
    by (simp add: run_defs)
  have digits: "str_nat (nat (round_half_even ((fst (time_time ?sys 5) - fst (time_time ?sys 0)) * 1000))) =
      ''5''"
    by (simp add: stub_sys_def round_half_even_def str_nat.simps)
  obtain g w2 risk_score risk_level decision confidence behavioral location' device velocity
    where ex: "extract_features ?sys test_transaction None (snd (time_time ?sys 0)) = Inr (g, w2)"
    and r: "?r = [(''riskScore'', RFloat risk_score),
         (''riskLevel'', RStr risk_level),
         (''decision'', RStr decision),
         (''confidence'', RFloat confidence),
         (''processingTime'',
            RStr (fmt_0f ((fst (time_time ?sys w2) - fst (time_time ?sys 0)) * 1000) @ ''ms'')),
         (''features'', RDict
            [(''behavioralScore'', RFloat behavioral),
             (''locationScore'', RFloat location'),
             (''deviceScore'', RFloat device),
             (''velocityScore'', RFloat velocity)]),
         (''timestamp'', RStr (isoformat (fst (datetime_now ?sys (snd (time_time ?sys w2))))))]"
    and clock: "fst (time_time ?sys 0) \<le> fst (time_time ?sys w2) \<longrightarrow>
       0 \<le> (fst (time_time ?sys w2) - fst (time_time ?sys 0)) * 1000 \<and>
       fmt_0f ((fst (time_time ?sys w2) - fst (time_time ?sys 0)) * 1000) =
         str_nat (nat (round_half_even ((fst (time_time ?sys w2) - fst (time_time ?sys 0)) * 1000)))"
    and bounds: "0 \<le> risk_score" "risk_score \<le> 1"
      "(risk_level, decision) \<in>
        set [(''LOW'', ''APPROVE''), (''MEDIUM'', ''REVIEW''), (''HIGH'', ''BLOCK'')]"
      "1 / 2 \<le> confidence" "confidence \<le> 1"
      "0 \<le> behavioral" "behavioral \<le> 1"
      "0 \<le> location'" "location' \<le> 1"
      "0 \<le> device" "device \<le> 1"
      "0 \<le> velocity" "velocity \<le> 1"
    using C2_result_shape [OF run sampler rf gb] by blast
  have w2: "w2 = 5"
    using after ex by auto
  note ex5 = ex [unfolded w2] and r5 = r [unfolded w2]
  have clock5: "0 \<le> (fst (time_time ?sys 5) - fst (time_time ?sys 0)) * 1000"
    "fmt_0f ((fst (time_time ?sys 5) - fst (time_time ?sys 0)) * 1000) =
         str_nat (nat (round_half_even ((fst (time_time ?sys 5) - fst (time_time ?sys 0)) * 1000)))"
    using clock [unfolded w2] order by blast+
  have shape: "\<exists>g risk_score risk_level decision confidence behavioral location' device velocity.
          extract_features ?sys test_transaction None (snd (time_time ?sys 0)) = Inr (g, 5) \<and>
          ?r = [(''riskScore'', RFloat risk_score),
               (''riskLevel'', RStr risk_level),
               (''decision'', RStr decision),
               (''confidence'', RFloat confidence),
               (''processingTime'',
                  RStr (fmt_0f ((fst (time_time ?sys 5) - fst (time_time ?sys 0)) * 1000) @ ''ms'')),
               (''features'', RDict
                  [(''behavioralScore'', RFloat behavioral),
                   (''locationScore'', RFloat location'),
                   (''deviceScore'', RFloat device),
                   (''velocityScore'', RFloat velocity)]),
               (''timestamp'', RStr (isoformat (fst (datetime_now ?sys (snd (time_time ?sys 5))))))] \<and>
          0 \<le> (fst (time_time ?sys 5) - fst (time_time ?sys 0)) * 1000 \<and>
          fmt_0f ((fst (time_time ?sys 5) - fst (time_time ?sys 0)) * 1000) =
            str_nat (nat (round_half_even ((fst (time_time ?sys 5) - fst (time_time ?sys 0)) * 1000))) \<and>
          str_nat (nat (round_half_even ((fst (time_time ?sys 5) - fst (time_time ?sys 0)) * 1000))) =
            ''5'' \<and>
          0 \<le> risk_score \<and> risk_score \<le> 1 \<and>
          (risk_level, decision) \<in>
            set [(''LOW'', ''APPROVE''), (''MEDIUM'', ''REVIEW''), (''HIGH'', ''BLOCK'')] \<and>
          1 / 2 \<le> confidence \<and> confidence \<le> 1 \<and>
          0 \<le> behavioral \<and> behavioral \<le> 1 \<and>
          0 \<le> location' \<and> location' \<le> 1 \<and>
          0 \<le> device \<and> device \<le> 1 \<and>
          0 \<le> velocity \<and> velocity \<le> 1"
    by (intro exI conjI, rule ex5, rule r5, rule clock5(1), rule clock5(2), rule digits)
      (rule bounds)+
  show ?thesis
    unfolding Let_def
    by (intro conjI run sampler rf_out gb_out reads order shape)
qed

text \<open>The claim as the specification states it fails: the result of a scoring call has no
  field \<open>risk_score\<close>, \<open>risk_level\<close>, \<open>processing_time_ms\<close> or \<open>sub_scores\<close>, and its
  processing time is the string \<open>5ms\<close>, not a float; with a wall clock that steps back by
  five milliseconds between the two reads it is the string \<open>-5ms\<close>.\<close>

theorem C2_field_names_counterexample:
  "(let r = [(''riskScore'', RFloat (3 / 5)),
             (''riskLevel'', RStr ''MEDIUM''),
             (''decision'', RStr ''REVIEW''),
             (''confidence'', RFloat (3 / 5)),
             (''processingTime'', RStr ''5ms''),
             (''features'', RDict
                [(''behavioralScore'', RFloat (1 / 2)),
                 (''locationScore'', RFloat (4 / 5)),
                 (''deviceScore'', RFloat (4 / 5)),
                 (''velocityScore'', RFloat (9 / 10))]),
             (''timestamp'', RStr ''2024-05-01T14:00:00'')]
    in predict_fraud (stub_sys (1 / 5) (4 / 5) (2 / 5)) test_transaction None 0 = Inr (r, 7) \<and>
       map fst r =
         [''riskScore'', ''riskLevel'', ''decision'', ''confidence'', ''processingTime'',
          ''features'', ''timestamp''] \<and>
       map_of r ''risk_score'' = None \<and>
       map_of r ''risk_level'' = None \<and>
       map_of r ''processing_time_ms'' = None \<and>
       map_of r ''sub_scores'' = None \<and>
       map_of r ''processingTime'' = Some (RStr ''5ms'') \<and>
       map_of
         (fst (projr (predict_fraud
            ((stub_sys (1 / 5) (4 / 5) (2 / 5))
               \<lparr>time_time := (\<lambda>w. (10 - of_nat w / 1000, Suc w))\<rparr>)
            test_transaction None 0)))
         ''processingTime'' = Some (RStr ''-5ms''))"
  by (simp add: run_defs)

section \<open>The decision policy\<close>

text \<open>
  Claim C3. The decision is a function of the ensemble probability alone, with thresholds
  closed on the left and open on the right: a probability in \<open>[0, 0.3)\<close> gives
  \<open>(LOW, APPROVE)\<close>, one in \<open>[0.3, 0.7)\<close> gives \<open>(MEDIUM, REVIEW)\<close>, one in \<open>[0.7, 1]\<close> gives
  \<open>(HIGH, BLOCK)\<close>; in particular \<open>0.3\<close> gives \<open>(MEDIUM, REVIEW)\<close> and \<open>0.7\<close> gives
  \<open>(HIGH, BLOCK)\<close>. In a returned result, \<open>riskLevel\<close> and \<open>decision\<close> are this function of the
  mean of the two classifier outputs.
\<close>

theorem C3_decision_thresholds:
  "(0 \<le> p \<and> p < 3 / 10 \<longrightarrow> risk_decision p = (''LOW'', ''APPROVE'')) \<and>
   (3 / 10 \<le> p \<and> p < 7 / 10 \<longrightarrow> risk_decision p = (''MEDIUM'', ''REVIEW'')) \<and>
   (7 / 10 \<le> p \<and> p \<le> 1 \<longrightarrow> risk_decision p = (''HIGH'', ''BLOCK'')) \<and>
   risk_decision (3 / 10) = (''MEDIUM'', ''REVIEW'') \<and>
   risk_decision (7 / 10) = (''HIGH'', ''BLOCK'') \<and>
   (predict_fraud sys tx h w = Inr (r, w') \<longrightarrow>
      (\<exists>v p1 p2. rf_predict_proba sys v = Inr p1 \<and> gb_predict_proba sys v = Inr p2 \<and>
         map_of r ''riskLevel'' = Some (RStr (fst (risk_decision ((p1 + p2) / 2)))) \<and>
         map_of r ''decision'' = Some (RStr (snd (risk_decision ((p1 + p2) / 2))))))"
proof -
  have thresholds:
    "(0 \<le> p \<and> p < 3 / 10 \<longrightarrow> risk_decision p = (''LOW'', ''APPROVE'')) \<and>
     (3 / 10 \<le> p \<and> p < 7 / 10 \<longrightarrow> risk_decision p = (''MEDIUM'', ''REVIEW'')) \<and>
     (7 / 10 \<le> p \<and> p \<le> 1 \<longrightarrow> risk_decision p = (''HIGH'', ''BLOCK'')) \<and>
     risk_decision (3 / 10) = (''MEDIUM'', ''REVIEW'') \<and>
     risk_decision (7 / 10) = (''HIGH'', ''BLOCK'')"
    by (simp add: risk_decision_def)
  have scored: "\<exists>v p1 p2. rf_predict_proba sys v = Inr p1 \<and> gb_predict_proba sys v = Inr p2 \<and>
         map_of r ''riskLevel'' = Some (RStr (fst (risk_decision ((p1 + p2) / 2)))) \<and>
         map_of r ''decision'' = Some (RStr (snd (risk_decision ((p1 + p2) / 2))))"
    if returned: "predict_fraud sys tx h w = Inr (r, w')"
  proof -
    obtain f w2 scaled p1 p2 beh loc dev vel where
      "rf_predict_proba sys scaled = Inr p1" "gb_predict_proba sys scaled = Inr p2"
      "r = [(''riskScore'', RFloat (py_round ((p1 + p2) / 2) 3)),
         (''riskLevel'', RStr (fst (risk_decision ((p1 + p2) / 2)))),
         (''decision'', RStr (snd (risk_decision ((p1 + p2) / 2)))),
         (''confidence'', RFloat (py_round (max ((p1 + p2) / 2) (1 - (p1 + p2) / 2)) 3)),
         (''processingTime'',
            RStr (fmt_0f ((fst (time_time sys w2) - fst (time_time sys w)) * 1000) @ ''ms'')),
         (''features'', RDict
            [(''behavioralScore'', RFloat (py_round beh 3)),
             (''locationScore'', RFloat (py_round (1 - loc) 3)),
             (''deviceScore'', RFloat (py_round (1 - dev) 3)),
             (''velocityScore'', RFloat (py_round (1 - vel) 3))]),
         (''timestamp'', RStr (isoformat (fst (datetime_now sys (snd (time_time sys w2))))))]"
      using predict_fraud_Inr [OF returned] by blast
    then show ?thesis
      by (intro exI [of _ scaled] exI [of _ p1] exI [of _ p2]) simp
  qed
  from thresholds scored show ?thesis
    by blast
qed

theorem C3_decision_thresholds_witness:
  "(let sys = stub_sys (1 / 5) (4 / 5) (2 / 5);
        r = [(''riskScore'', RFloat (3 / 5)),
             (''riskLevel'', RStr ''MEDIUM''),
             (''decision'', RStr ''REVIEW''),
             (''confidence'', RFloat (3 / 5)),
             (''processingTime'', RStr ''7ms''),
             (''features'', RDict
                [(''behavioralScore'', RFloat (1 / 5)),
                 (''locationScore'', RFloat (4 / 5)),
                 (''deviceScore'', RFloat (4 / 5)),
                 (''velocityScore'', RFloat (4 / 5))]),
             (''timestamp'', RStr ''2024-05-01T14:00:00'')]
    in (3 / 10 \<le> (1 / 2 :: real) \<and> (1 / 2 :: real) < 7 / 10) \<and>
       risk_decision (1 / 2) = (''MEDIUM'', ''REVIEW'') \<and>
       predict_fraud sys test_transaction (Some test_history) 0 = Inr (r, 9) \<and>
       (\<exists>v p1 p2. rf_predict_proba sys v = Inr p1 \<and> gb_predict_proba sys v = Inr p2 \<and>
          map_of r ''riskLevel'' = Some (RStr (fst (risk_decision ((p1 + p2) / 2)))) \<and>
          map_of r ''decision'' = Some (RStr (snd (risk_decision ((p1 + p2) / 2))))))"
proof -
  let ?sys = "stub_sys (1 / 5) (4 / 5) (2 / 5)"
  let ?r = "[(''riskScore'', RFloat (3 / 5)),
             (''riskLevel'', RStr ''MEDIUM''),
             (''decision'', RStr ''REVIEW''),
             (''confidence'', RFloat (3 / 5)),
             (''processingTime'', RStr ''7ms''),
             (''features'', RDict
                [(''behavioralScore'', RFloat (1 / 5)),
                 (''locationScore'', RFloat (4 / 5)),
                 (''deviceScore'', RFloat (4 / 5)),
                 (''velocityScore'', RFloat (4 / 5))]),
             (''timestamp'', RStr ''2024-05-01T14:00:00'')]"
  have run: "predict_fraud ?sys test_transaction (Some test_history) 0 = Inr (?r, 9)"
    by (simp add: run_defs)
  have range: "3 / 10 \<le> (1 / 2 :: real) \<and> (1 / 2 :: real) < 7 / 10"
    by simp
  show ?thesis
    using C3_decision_thresholds [of "1 / 2" ?sys test_transaction "Some test_history" 0 ?r 9]
      run range
    unfolding Let_def by blast
qed

section \<open>Ensemble mean and confidence\<close>

text \<open>
  Claim C4, as the program has it. In every returned result the fraud probability is the
  arithmetic mean \<open>(p1 + p2) / 2\<close> of the two classifier outputs: the risk level and the
  decision are taken from it, and the returned risk score is its rounding to three decimals.
  The returned confidence is \<open>max(probability, 1 - probability)\<close> rounded to three decimals;
  for classifier outputs in \<open>[0, 1]\<close> it lies in \<open>[0.5, 1]\<close>. For the outputs \<open>0.8\<close> and \<open>0.4\<close> the
  probability, the returned risk score and the returned confidence are all \<open>0.6\<close>.
\<close>

theorem C4_mean_and_confidence:
  assumes "predict_fraud sys tx h w = Inr (r, w')"
  shows "\<exists>v p1 p2 p.
    rf_predict_proba sys v = Inr p1 \<and> gb_predict_proba sys v = Inr p2 \<and>
    p = (p1 + p2) / 2 \<and>
    map_of r ''riskScore'' = Some (RFloat (py_round p 3)) \<and>
    map_of r ''riskLevel'' = Some (RStr (fst (risk_decision p))) \<and>
    map_of r ''decision'' = Some (RStr (snd (risk_decision p))) \<and>
    map_of r ''confidence'' = Some (RFloat (py_round (max p (1 - p)) 3)) \<and>
    (0 \<le> p1 \<and> p1 \<le> 1 \<and> 0 \<le> p2 \<and> p2 \<le> 1 \<longrightarrow>
       0 \<le> p \<and> p \<le> 1 \<and>
       1 / 2 \<le> py_round (max p (1 - p)) 3 \<and> py_round (max p (1 - p)) 3 \<le> 1) \<and>
    (p1 = 4 / 5 \<and> p2 = 2 / 5 \<longrightarrow>
       p = 3 / 5 \<and> py_round p 3 = 3 / 5 \<and> py_round (max p (1 - p)) 3 = 3 / 5)"
proof -
  obtain f w2 scaled p1 p2 beh loc dev vel where
    rf: "rf_predict_proba sys scaled = Inr p1"
    and gb: "gb_predict_proba sys scaled = Inr p2"
    and r: "r = [(''riskScore'', RFloat (py_round ((p1 + p2) / 2) 3)),
         (''riskLevel'', RStr (fst (risk_decision ((p1 + p2) / 2)))),
         (''decision'', RStr (snd (risk_decision ((p1 + p2) / 2)))),
         (''confidence'', RFloat (py_round (max ((p1 + p2) / 2) (1 - (p1 + p2) / 2)) 3)),
         (''processingTime'',
            RStr (fmt_0f ((fst (time_time sys w2) - fst (time_time sys w)) * 1000) @ ''ms'')),
         (''features'', RDict
            [(''behavioralScore'', RFloat (py_round beh 3)),
             (''locationScore'', RFloat (py_round (1 - loc) 3)),
             (''deviceScore'', RFloat (py_round (1 - dev) 3)),
             (''velocityScore'', RFloat (py_round (1 - vel) 3))]),
         (''timestamp'', RStr (isoformat (fst (datetime_now sys (snd (time_time sys w2))))))]"
    using predict_fraud_Inr [OF assms] by blast
  define p where "p = (p1 + p2) / 2"
  have fields:
    "map_of r ''riskScore'' = Some (RFloat (py_round p 3)) \<and>
     map_of r ''riskLevel'' = Some (RStr (fst (risk_decision p))) \<and>
     map_of r ''decision'' = Some (RStr (snd (risk_decision p))) \<and>
     map_of r ''confidence'' = Some (RFloat (py_round (max p (1 - p)) 3))"
    by (simp add: r p_def)
  have bounds: "0 \<le> p \<and> p \<le> 1 \<and>
       1 / 2 \<le> py_round (max p (1 - p)) 3 \<and> py_round (max p (1 - p)) 3 \<le> 1"
    if "0 \<le> p1 \<and> p1 \<le> 1 \<and> 0 \<le> p2 \<and> p2 \<le> 1"
  proof -
    have unit: "0 \<le> p \<and> p \<le> 1"
      using that by (simp add: p_def)
    then have "1 / 2 \<le> max p (1 - p)" "max p (1 - p) \<le> 1"
      by (auto simp: max_def)
    then show ?thesis
      using unit py_round_upper_half [of "max p (1 - p)"] by blast
  qed
  have fixed: "p = 3 / 5 \<and> py_round p 3 = 3 / 5 \<and> py_round (max p (1 - p)) 3 = 3 / 5"
    if outputs: "p1 = 4 / 5 \<and> p2 = 2 / 5"
  proof -
    from outputs have p1: "p1 = 4 / 5" and p2: "p2 = 2 / 5"
      by blast+
    have mean: "p = 3 / 5"
      unfolding p_def p1 p2 by simp
    have larger: "max (3 / 5 :: real) (1 - 3 / 5) = 3 / 5"
      by simp
    have rounded: "py_round (3 / 5) 3 = 3 / 5"
      by (simp add: py_round_def round_half_even_def)
    show ?thesis
      unfolding mean larger rounded by simp
  qed
  from rf gb fields bounds fixed p_def show ?thesis
    by blast
qed

theorem C4_mean_and_confidence_witness:
  "(let sys = stub_sys (1 / 5) (4 / 5) (2 / 5);
        r = [(''riskScore'', RFloat (3 / 5)),
             (''riskLevel'', RStr ''MEDIUM''),
             (''decision'', RStr ''REVIEW''),
             (''confidence'', RFloat (3 / 5)),
             (''processingTime'', RStr ''7ms''),
             (''features'', RDict
                [(''behavioralScore'', RFloat (1 / 5)),
                 (''locationScore'', RFloat (4 / 5)),
                 (''deviceScore'', RFloat (4 / 5)),
                 (''velocityScore'', RFloat (4 / 5))]),
             (''timestamp'', RStr ''2024-05-01T14:00:00'')]
    in predict_fraud sys test_transaction (Some test_history) 0 = Inr (r, 9) \<and>
       (\<exists>v p1 p2 p.
          rf_predict_proba sys v = Inr p1 \<and> gb_predict_proba sys v = Inr p2 \<and>
          p = (p1 + p2) / 2 \<and>
          map_of r ''riskScore'' = Some (RFloat (py_round p 3)) \<and>
          map_of r ''riskLevel'' = Some (RStr (fst (risk_decision p))) \<and>
          map_of r ''decision'' = Some (RStr (snd (risk_decision p))) \<and>
          map_of r ''confidence'' = Some (RFloat (py_round (max p (1 - p)) 3)) \<and>
          (0 \<le> p1 \<and> p1 \<le> 1 \<and> 0 \<le> p2 \<and> p2 \<le> 1) \<and>
          (0 \<le> p \<and> p \<le> 1 \<and>
           1 / 2 \<le> py_round (max p (1 - p)) 3 \<and> py_round (max p (1 - p)) 3 \<le> 1) \<and>
          (p1 = 4 / 5 \<and> p2 = 2 / 5) \<and>
          (p = 3 / 5 \<and> py_round p 3 = 3 / 5 \<and> py_round (max p (1 - p)) 3 = 3 / 5)))"
proof -
  let ?sys = "stub_sys (1 / 5) (4 / 5) (2 / 5)"
  let ?r = "[(''riskScore'', RFloat (3 / 5)),
             (''riskLevel'', RStr ''MEDIUM''),
             (''decision'', RStr ''REVIEW''),
             (''confidence'', RFloat (3 / 5)),
             (''processingTime'', RStr ''7ms''),
             (''features'', RDict
                [(''behavioralScore'', RFloat (1 / 5)),
                 (''locationScore'', RFloat (4 / 5)),
                 (''deviceScore'', RFloat (4 / 5)),
                 (''velocityScore'', RFloat (4 / 5))]),
             (''timestamp'', RStr ''2024-05-01T14:00:00'')]"
  have run: "predict_fraud ?sys test_transaction (Some test_history) 0 = Inr (?r, 9)"
    by (simp add: run_defs)
  obtain v p1 p2 p where
    rf: "rf_predict_proba ?sys v = Inr p1" and gb: "gb_predict_proba ?sys v = Inr p2"
    and rest: "p = (p1 + p2) / 2 \<and>
          map_of ?r ''riskScore'' = Some (RFloat (py_round p 3)) \<and>
          map_of ?r ''riskLevel'' = Some (RStr (fst (risk_decision p))) \<and>
          map_of ?r ''decision'' = Some (RStr (snd (risk_decision p))) \<and>
          map_of ?r ''confidence'' = Some (RFloat (py_round (max p (1 - p)) 3)) \<and>
          (0 \<le> p1 \<and> p1 \<le> 1 \<and> 0 \<le> p2 \<and> p2 \<le> 1 \<longrightarrow>
             0 \<le> p \<and> p \<le> 1 \<and>
             1 / 2 \<le> py_round (max p (1 - p)) 3 \<and> py_round (max p (1 - p)) 3 \<le> 1) \<and>
          (p1 = 4 / 5 \<and> p2 = 2 / 5 \<longrightarrow>
             p = 3 / 5 \<and> py_round p 3 = 3 / 5 \<and> py_round (max p (1 - p)) 3 = 3 / 5)"
    using C4_mean_and_confidence [OF run] by blast
  have outputs: "p1 = 4 / 5 \<and> p2 = 2 / 5"
    using rf gb unfolding stub_sys_def sys.select_convs by blast
  then have unit: "0 \<le> p1 \<and> p1 \<le> 1 \<and> 0 \<le> p2 \<and> p2 \<le> 1"
    by simp
  from run rf gb rest outputs unit show ?thesis
    unfolding Let_def by blast
qed

text \<open>The claim as the specification states it fails: with the classifier outputs \<open>0.8\<close> and
  \<open>0.4008\<close> the probability is \<open>0.6004\<close>, and the returned confidence is \<open>0.6\<close>, not
  \<open>max(0.6004, 0.3996) = 0.6004\<close>.\<close>

theorem C4_rounded_confidence_counterexample:
  "predict_fraud (stub_sys (1 / 5) (4 / 5) (4008 / 10000)) test_transaction
     (Some test_history) 0 =
     Inr ([(''riskScore'', RFloat (3 / 5)),
           (''riskLevel'', RStr ''MEDIUM''),
           (''decision'', RStr ''REVIEW''),
           (''confidence'', RFloat (3 / 5)),
           (''processingTime'', RStr ''7ms''),
           (''features'', RDict
              [(''behavioralScore'', RFloat (1 / 5)),
               (''locationScore'', RFloat (4 / 5)),
               (''deviceScore'', RFloat (4 / 5)),
               (''velocityScore'', RFloat (4 / 5))]),
           (''timestamp'', RStr ''2024-05-01T14:00:00'')], 9) \<and>
   rf_predict_proba (stub_sys (1 / 5) (4 / 5) (4008 / 10000)) [] = Inr (4 / 5) \<and>
   gb_predict_proba (stub_sys (1 / 5) (4 / 5) (4008 / 10000)) [] = Inr (4008 / 10000) \<and>
   max ((4 / 5 + 4008 / 10000) / 2) (1 - (4 / 5 + 4008 / 10000) / 2) = (6004 / 10000 :: real) \<and>
   (3 / 5 :: real) \<noteq> 6004 / 10000"
  by (simp add: run_defs)

section \<open>Cold-start defaults and history fields\<close>

text \<open>
  Claim C5. For a transaction with a numeric amount \<open>a\<close> (every valid transaction is one),
  extraction without a history gives \<open>user_age_days = 1\<close>, \<open>previous_transactions = 0\<close>,
  \<open>avg_transaction_amount = transaction_amount = a\<close>, \<open>time_since_last_tx = 24\<close> and hence
  \<open>amount_deviation = 0\<close>. With a history that holds the fields \<open>account_age_days\<close>,
  \<open>transaction_count\<close>, \<open>avg_amount\<close> and \<open>hours_since_last_tx\<close>, the four features are
  copied from these fields, in this order.
\<close>

theorem C5_defaults_and_history:
  assumes "amount tx = Some (PNum a)"
  shows
    "(\<exists>f w'. extract_features sys tx None w = Inr (f, w') \<and>
        map_of f ''transaction_amount'' = Some a \<and>
        map_of f ''user_age_days'' = Some 1 \<and>
        map_of f ''previous_transactions'' = Some 0 \<and>
        map_of f ''avg_transaction_amount'' = Some a \<and>
        map_of f ''time_since_last_tx'' = Some 24 \<and>
        map_of f ''amount_deviation'' = Some 0) \<and>
     (map_of d ''account_age_days'' = Some age \<and>
      map_of d ''transaction_count'' = Some cnt \<and>
      map_of d ''avg_amount'' = Some avg \<and>
      map_of d ''hours_since_last_tx'' = Some hrs \<longrightarrow>
        (\<exists>f w'. extract_features sys tx (Some d) w = Inr (f, w') \<and>
           map_of f ''user_age_days'' = Some age \<and>
           map_of f ''previous_transactions'' = Some cnt \<and>
           map_of f ''avg_transaction_amount'' = Some avg \<and>
           map_of f ''time_since_last_tx'' = Some hrs))"
proof -
  have conv: "py_float sys (case amount tx of None \<Rightarrow> PNum 0 | Some v \<Rightarrow> v) = Inr a"
    using assms by (simp add: py_float_def)
  have cold: "\<exists>f w'. extract_features sys tx None w = Inr (f, w') \<and>
        map_of f ''transaction_amount'' = Some a \<and>
        map_of f ''user_age_days'' = Some 1 \<and>
        map_of f ''previous_transactions'' = Some 0 \<and>
        map_of f ''avg_transaction_amount'' = Some a \<and>
        map_of f ''time_since_last_tx'' = Some 24 \<and>
        map_of f ''amount_deviation'' = Some 0"
  proof -
    obtain f w' where ex: "extract_features sys tx None w = Inr (f, w')"
      using extract_features_total [OF conv] by blast
    show ?thesis
      using extract_features_Inr [OF ex] ex conv
      by (auto simp: if_history_def)
  qed
  have known: "\<exists>f w'. extract_features sys tx (Some d) w = Inr (f, w') \<and>
           map_of f ''user_age_days'' = Some age \<and>
           map_of f ''previous_transactions'' = Some cnt \<and>
           map_of f ''avg_transaction_amount'' = Some avg \<and>
           map_of f ''time_since_last_tx'' = Some hrs"
    if fields: "map_of d ''account_age_days'' = Some age \<and>
      map_of d ''transaction_count'' = Some cnt \<and>
      map_of d ''avg_amount'' = Some avg \<and>
      map_of d ''hours_since_last_tx'' = Some hrs"
  proof -
    obtain f w' where ex: "extract_features sys tx (Some d) w = Inr (f, w')"
      using extract_features_total [OF conv] by blast
    have "d \<noteq> []"
      using fields by auto
    then show ?thesis
      using extract_features_Inr [OF ex] ex fields
      by (auto simp: if_history_def dict_get_def)
  qed
  from cold known show ?thesis
    by blast
qed

theorem C5_defaults_and_history_witness:
  "(let sys = stub_sys (1 / 5) (4 / 5) (2 / 5)
    in amount test_transaction = Some (PNum 1000) \<and>
       (map_of test_history ''account_age_days'' = Some 30 \<and>
        map_of test_history ''transaction_count'' = Some 15 \<and>
        map_of test_history ''avg_amount'' = Some 500 \<and>
        map_of test_history ''hours_since_last_tx'' = Some 6) \<and>
       (\<exists>f w'. extract_features sys test_transaction None 0 = Inr (f, w') \<and>
          map_of f ''transaction_amount'' = Some 1000 \<and>
          map_of f ''user_age_days'' = Some 1 \<and>
          map_of f ''previous_transactions'' = Some 0 \<and>
          map_of f ''avg_transaction_amount'' = Some 1000 \<and>
          map_of f ''time_since_last_tx'' = Some 24 \<and>
          map_of f ''amount_deviation'' = Some 0) \<and>
       (\<exists>f w'. extract_features sys test_transaction (Some test_history) 0 = Inr (f, w') \<and>
          map_of f ''user_age_days'' = Some 30 \<and>
          map_of f ''previous_transactions'' = Some 15 \<and>
          map_of f ''avg_transaction_amount'' = Some 500 \<and>
          map_of f ''time_since_last_tx'' = Some 6))"
proof -
  have amt: "amount test_transaction = Some (PNum 1000)"
    by (simp add: test_transaction_def)
  have fields: "map_of test_history ''account_age_days'' = Some 30 \<and>
        map_of test_history ''transaction_count'' = Some 15 \<and>
        map_of test_history ''avg_amount'' = Some 500 \<and>
        map_of test_history ''hours_since_last_tx'' = Some 6"
    by (simp add: test_history_def)
  show ?thesis
    using C5_defaults_and_history [OF amt, of "stub_sys (1 / 5) (4 / 5) (2 / 5)" 0
        test_history 30 15 500 6] amt fields
    unfolding Let_def by blast
qed

section \<open>The feature vector\<close>

text \<open>
  Claim C6. The columns are the twelve names \<open>transaction_amount\<close>, \<open>hour_of_day\<close>,
  \<open>day_of_week\<close>, \<open>user_age_days\<close>, \<open>previous_transactions\<close>, \<open>avg_transaction_amount\<close>,
  \<open>location_risk_score\<close>, \<open>device_risk_score\<close>, \<open>velocity_score\<close>, \<open>behavioral_score\<close>,
  \<open>time_since_last_tx\<close>, \<open>amount_deviation\<close>, in this order. A successful extraction holds
  exactly these twelve fields, none skipped, and selecting the columns gives their twelve
  values in this order. In every scoring call that returns, the scaler is applied to this
  vector and both classifiers to the scaler's output.
\<close>

theorem C6_feature_vector:
  "feature_columns =
     [''transaction_amount'', ''hour_of_day'', ''day_of_week'',
      ''user_age_days'', ''previous_transactions'', ''avg_transaction_amount'',
      ''location_risk_score'', ''device_risk_score'', ''velocity_score'',
      ''behavioral_score'', ''time_since_last_tx'', ''amount_deviation''] \<and>
   length feature_columns = 12 \<and> distinct feature_columns \<and>
   (extract_features sys tx h w = Inr (f, w1) \<longrightarrow>
      map fst f = feature_columns \<and>
      select_columns f feature_columns = Inr (map snd f) \<and>
      length (map snd f) = 12) \<and>
   (predict_fraud sys tx h w = Inr (r, w') \<longrightarrow>
      (\<exists>g w2 scaled p1 p2.
         extract_features sys tx h (snd (time_time sys w)) = Inr (g, w2) \<and>
         map fst g = feature_columns \<and>
         scaler_transform sys (map snd g) = Inr scaled \<and>
         rf_predict_proba sys scaled = Inr p1 \<and>
         gb_predict_proba sys scaled = Inr p2 \<and>
         map_of r ''riskScore'' = Some (RFloat (py_round ((p1 + p2) / 2) 3))))"
proof -
  have columns: "feature_columns =
     [''transaction_amount'', ''hour_of_day'', ''day_of_week'',
      ''user_age_days'', ''previous_transactions'', ''avg_transaction_amount'',
      ''location_risk_score'', ''device_risk_score'', ''velocity_score'',
      ''behavioral_score'', ''time_since_last_tx'', ''amount_deviation''] \<and>
   length feature_columns = 12 \<and> distinct feature_columns"
    by (simp add: feature_columns_def)
  have keys: "map fst g = feature_columns \<and> length (map snd g) = 12"
    if "extract_features sys tx h v = Inr (g, v')" for g v v'
    using extract_features_Inr [OF that] by (auto simp: feature_columns_def)
  have extracted: "map fst f = feature_columns \<and>
      select_columns f feature_columns = Inr (map snd f) \<and>
      length (map snd f) = 12"
    if ex: "extract_features sys tx h w = Inr (f, w1)"
    using keys [OF ex] select_columns_extracted [OF ex] by simp
  have scored: "\<exists>g w2 scaled p1 p2.
         extract_features sys tx h (snd (time_time sys w)) = Inr (g, w2) \<and>
         map fst g = feature_columns \<and>
         scaler_transform sys (map snd g) = Inr scaled \<and>
         rf_predict_proba sys scaled = Inr p1 \<and>
         gb_predict_proba sys scaled = Inr p2 \<and>
         map_of r ''riskScore'' = Some (RFloat (py_round ((p1 + p2) / 2) 3))"
    if returned: "predict_fraud sys tx h w = Inr (r, w')"
  proof -
    obtain g w2 scaled p1 p2 beh loc dev vel where
      ex: "extract_features sys tx h (snd (time_time sys w)) = Inr (g, w2)"
      and sc: "scaler_transform sys (map snd g) = Inr scaled"
      and rf: "rf_predict_proba sys scaled = Inr p1"
      and gb: "gb_predict_proba sys scaled = Inr p2"
      and r: "r = [(''riskScore'', RFloat (py_round ((p1 + p2) / 2) 3)),
         (''riskLevel'', RStr (fst (risk_decision ((p1 + p2) / 2)))),
         (''decision'', RStr (snd (risk_decision ((p1 + p2) / 2)))),
         (''confidence'', RFloat (py_round (max ((p1 + p2) / 2) (1 - (p1 + p2) / 2)) 3)),
         (''processingTime'',
            RStr (fmt_0f ((fst (time_time sys w2) - fst (time_time sys w)) * 1000) @ ''ms'')),
         (''features'', RDict
            [(''behavioralScore'', RFloat (py_round beh 3)),
             (''locationScore'', RFloat (py_round (1 - loc) 3)),
             (''deviceScore'', RFloat (py_round (1 - dev) 3)),
             (''velocityScore'', RFloat (py_round (1 - vel) 3))]),
         (''timestamp'', RStr (isoformat (fst (datetime_now sys (snd (time_time sys w2))))))]"
      using predict_fraud_Inr [OF returned] by blast
    have "map_of r ''riskScore'' = Some (RFloat (py_round ((p1 + p2) / 2) 3))"
      by (simp add: r)
    with ex sc rf gb keys [OF ex] show ?thesis
      by blast
  qed
  from columns extracted scored show ?thesis
    by blast
qed

theorem C6_feature_vector_witness:
  "(let sys = stub_sys (1 / 5) (4 / 5) (2 / 5);
        f = [(''transaction_amount'', 1000),
             (''hour_of_day'', 14),
             (''day_of_week'', 2),
             (''user_age_days'', 30),
             (''previous_transactions'', 15),
             (''avg_transaction_amount'', 500),
             (''location_risk_score'', 1 / 5),
             (''device_risk_score'', 1 / 5),
             (''velocity_score'', 1 / 5),
             (''behavioral_score'', 1 / 5),
             (''time_since_last_tx'', 6),
             (''amount_deviation'', 500)];
        r = [(''riskScore'', RFloat (3 / 5)),
             (''riskLevel'', RStr ''MEDIUM''),
             (''decision'', RStr ''REVIEW''),
             (''confidence'', RFloat (3 / 5)),
             (''processingTime'', RStr ''7ms''),
             (''features'', RDict
                [(''behavioralScore'', RFloat (1 / 5)),
                 (''locationScore'', RFloat (4 / 5)),
                 (''deviceScore'', RFloat (4 / 5)),
                 (''velocityScore'', RFloat (4 / 5))]),
             (''timestamp'', RStr ''2024-05-01T14:00:00'')]
    in extract_features sys test_transaction (Some test_history) 1 = Inr (f, 7) \<and>
       predict_fraud sys test_transaction (Some test_history) 0 = Inr (r, 9) \<and>
       map fst f = feature_columns \<and>
       select_columns f feature_columns =
         Inr [1000, 14, 2, 30, 15, 500, 1 / 5, 1 / 5, 1 / 5, 1 / 5, 6, 500] \<and>
       (\<exists>g w2 scaled p1 p2.
          extract_features sys test_transaction (Some test_history) (snd (time_time sys 0)) =
            Inr (g, w2) \<and>
          map fst g = feature_columns \<and>
          scaler_transform sys (map snd g) = Inr scaled \<and>
          rf_predict_proba sys scaled = Inr p1 \<and>
          gb_predict_proba sys scaled = Inr p2 \<and>
          map_of r ''riskScore'' = Some (RFloat (py_round ((p1 + p2) / 2) 3))))"
proof -
  let ?sys = "stub_sys (1 / 5) (4 / 5) (2 / 5)"
  let ?f = "[(''transaction_amount'', 1000),
             (''hour_of_day'', 14),
             (''day_of_week'', 2),
             (''user_age_days'', 30),
             (''previous_transactions'', 15),
             (''avg_transaction_amount'', 500),
             (''location_risk_score'', 1 / 5),
             (''device_risk_score'', 1 / 5),
             (''velocity_score'', 1 / 5),
             (''behavioral_score'', 1 / 5),
             (''time_since_last_tx'', 6),
             (''amount_deviation'', 500 :: real)]"
  let ?r = "[(''riskScore'', RFloat (3 / 5)),
             (''riskLevel'', RStr ''MEDIUM''),
             (''decision'', RStr ''REVIEW''),
             (''confidence'', RFloat (3 / 5)),
             (''processingTime'', RStr ''7ms''),
             (''features'', RDict
                [(''behavioralScore'', RFloat (1 / 5)),
                 (''locationScore'', RFloat (4 / 5)),
                 (''deviceScore'', RFloat (4 / 5)),
                 (''velocityScore'', RFloat (4 / 5))]),
             (''timestamp'', RStr ''2024-05-01T14:00:00'')]"
  have ex: "extract_features ?sys test_transaction (Some test_history) 1 = Inr (?f, 7)"
    by (simp add: run_defs)
  have run: "predict_fraud ?sys test_transaction (Some test_history) 0 = Inr (?r, 9)"
    by (simp add: run_defs)
  have vec: "map snd ?f = [1000, 14, 2, 30, 15, 500, 1 / 5, 1 / 5, 1 / 5, 1 / 5, 6, 500]"
    by simp
  show ?thesis
    using C6_feature_vector [where sys = ?sys and tx = test_transaction
        and h = "Some test_history" and w = 1 and f = ?f and ?w1.0 = 7]
      C6_feature_vector [where sys = ?sys and tx = test_transaction
        and h = "Some test_history" and w = 0 and r = ?r and w' = 9]
      ex run
    unfolding Let_def vec [symmetric] by blast
qed

section \<open>Normalization\<close>

text \<open>
  Claim C7. For parameters fitted on the fields of the vector (as many means and standard
  deviations as the vector has coordinates) with nonzero standard deviations, normalization
  succeeds and is the linear standardization of every coordinate,
  \<open>(v[i] - mean[i]) / std[i]\<close>; and normalizing the inverse-normalized vector gives the
  vector back. Over the reals the round trip is exact.
\<close>

theorem C7_normalize_round_trip:
  assumes fitted: "length (mean ps) = length v" "length (std ps) = length v"
    and nonzero: "\<forall>s \<in> set (std ps). s \<noteq> 0"
  shows "(\<exists>v'. normalize_vec v ps = Some v' \<and> length v' = length v \<and>
            (\<forall>i < length v. v' ! i = (v ! i - mean ps ! i) / std ps ! i)) \<and>
         (\<exists>u. normalize_inverse v ps = Some u \<and> normalize_vec u ps = Some v)"
proof -
  have forward: "\<exists>v'. normalize_vec v ps = Some v' \<and> length v' = length v \<and>
            (\<forall>i < length v. v' ! i = (v ! i - mean ps ! i) / std ps ! i)"
    using fitted by (simp add: normalize_vec_def)
  define u where "u = map (\<lambda>i. v ! i * std ps ! i + mean ps ! i) [0..<length v]"
  have inv: "normalize_inverse v ps = Some u"
    using fitted by (simp add: normalize_inverse_def u_def)
  have len: "length u = length v"
    by (simp add: u_def)
  have coord: "(u ! i - mean ps ! i) / std ps ! i = v ! i" if i: "i < length v" for i
  proof -
    have "std ps ! i \<in> set (std ps)"
      using i fitted by simp
    then have "std ps ! i \<noteq> 0"
      using nonzero by blast
    then show ?thesis
      using i by (simp add: u_def)
  qed
  have "map (\<lambda>i. (u ! i - mean ps ! i) / std ps ! i) [0..<length u] = v"
    by (rule nth_equalityI) (simp_all add: len coord)
  then have again: "normalize_vec u ps = Some v"
    using fitted len by (simp add: normalize_vec_def)
  from forward inv again show ?thesis
    by blast
qed

theorem C7_normalize_round_trip_witness:
  "(let ps = \<lparr>mean = [10, 0, 5 / 2], std = [2, 1 / 2, 4]\<rparr>;
        v = [14, 3, 1 / 2]
    in length (mean ps) = length v \<and> length (std ps) = length v \<and>
       list_all (\<lambda>s. s \<noteq> 0) (std ps) \<and>
       normalize_vec v ps = Some [2, 6, - 1 / 2] \<and>
       normalize_inverse v ps = Some [38, 3 / 2, 9 / 2] \<and>
       normalize_vec [38, 3 / 2, 9 / 2] ps = Some v \<and>
       (\<exists>v'. normalize_vec v ps = Some v' \<and> length v' = length v \<and>
          (\<forall>i < length v. v' ! i = (v ! i - mean ps ! i) / std ps ! i)) \<and>
       (\<exists>u. normalize_inverse v ps = Some u \<and> normalize_vec u ps = Some v))"
proof -
  let ?ps = "\<lparr>mean = [10, 0, 5 / 2], std = [2, 1 / 2, 4 :: real]\<rparr>"
  let ?v = "[14, 3, 1 / 2 :: real]"
  have fitted: "length (mean ?ps) = length ?v" "length (std ?ps) = length ?v"
    by simp_all
  have nonzero: "\<forall>s \<in> set (std ?ps). s \<noteq> 0"
    by simp
  have upt: "[0..<3] = [0, Suc 0, Suc (Suc 0)]"
    by (simp add: upt_rec)
  have runs: "normalize_vec ?v ?ps = Some [2, 6, - 1 / 2]"
    "normalize_inverse ?v ?ps = Some [38, 3 / 2, 9 / 2]"
    "normalize_vec [38, 3 / 2, 9 / 2] ?ps = Some ?v"
    by (simp_all add: normalize_vec_def normalize_inverse_def upt)
  have nz: "list_all (\<lambda>s. s \<noteq> 0) (std ?ps)"
    by simp
  show ?thesis
    unfolding Let_def
    by (intro conjI fitted nz runs
        C7_normalize_round_trip [OF fitted nonzero, THEN conjunct1]
        C7_normalize_round_trip [OF fitted nonzero, THEN conjunct2])
qed

section \<open>Displayed sub-scores\<close>




section \<open>Processing time, not transaction time\<close>

text \<open>
  Claim C9. \<open>hour_of_day\<close> and \<open>day_of_week\<close> are read from the clock at the time of
  extraction (the first and the second \<^verbatim>\<open>datetime.now()\<close> of the call), not from the
  transaction: replacing the \<open>timestamp\<close> field of a transaction by any other value, under the
  same environment and the same world state (clock and random generator), leaves the result
  of extraction unchanged.
\<close>

theorem C9_timestamp_not_read:
  "extract_features sys (tx\<lparr>timestamp := t\<rparr>) h w = extract_features sys tx h w \<and>
   (extract_features sys tx h w = Inr (f, w') \<longrightarrow>
      map_of f ''hour_of_day'' = Some (of_int (hour (fst (datetime_now sys w)))) \<and>
      map_of f ''day_of_week'' =
        Some (of_int (weekday (fst (datetime_now sys (snd (datetime_now sys w)))))))"
proof -
  have scorers:
    "compute_location_risk sys (tx\<lparr>timestamp := t\<rparr>) = compute_location_risk sys tx"
    "compute_device_risk sys (tx\<lparr>timestamp := t\<rparr>) = compute_device_risk sys tx"
    "compute_velocity_risk sys (tx\<lparr>timestamp := t\<rparr>) = compute_velocity_risk sys tx"
    "compute_behavioral_score sys (tx\<lparr>timestamp := t\<rparr>) = compute_behavioral_score sys tx"
    by (simp_all add: fun_eq_iff compute_location_risk_def compute_device_risk_def
        compute_velocity_risk_def compute_behavioral_score_def)
  have same: "extract_features sys (tx\<lparr>timestamp := t\<rparr>) h w = extract_features sys tx h w"
    by (simp add: extract_features_def scorers Let_def case_prod_beta split: sum.splits)
  have clock: "map_of f ''hour_of_day'' = Some (of_int (hour (fst (datetime_now sys w)))) \<and>
      map_of f ''day_of_week'' =
        Some (of_int (weekday (fst (datetime_now sys (snd (datetime_now sys w))))))"
    if ex: "extract_features sys tx h w = Inr (f, w')"
    using extract_features_Inr [OF ex] by auto
  from same clock show ?thesis
    by blast
qed

theorem C9_timestamp_not_read_witness:
  "(let sys = stub_sys (1 / 5) (4 / 5) (2 / 5);
        f = [(''transaction_amount'', 1000),
             (''hour_of_day'', 14),
             (''day_of_week'', 2),
             (''user_age_days'', 30),
             (''previous_transactions'', 15),
             (''avg_transaction_amount'', 500),
             (''location_risk_score'', 1 / 5),
             (''device_risk_score'', 1 / 5),
             (''velocity_score'', 1 / 5),
             (''behavioral_score'', 1 / 5),
             (''time_since_last_tx'', 6),
             (''amount_deviation'', 500)]
    in extract_features sys test_transaction (Some test_history) 0 = Inr (f, 6) \<and>
       extract_features sys (test_transaction\<lparr>timestamp := Some ''1999-12-31T23:59:59''\<rparr>)
         (Some test_history) 0 = Inr (f, 6) \<and>
       map_of f ''hour_of_day'' = Some (of_int (hour (fst (datetime_now sys 0)))) \<and>
       map_of f ''day_of_week'' =
         Some (of_int (weekday (fst (datetime_now sys (snd (datetime_now sys 0)))))))"
proof -
  let ?sys = "stub_sys (1 / 5) (4 / 5) (2 / 5)"
  let ?f = "[(''transaction_amount'', 1000),
             (''hour_of_day'', 14),
             (''day_of_week'', 2),
             (''user_age_days'', 30),
             (''previous_transactions'', 15),
             (''avg_transaction_amount'', 500),
             (''location_risk_score'', 1 / 5),
             (''device_risk_score'', 1 / 5),
             (''velocity_score'', 1 / 5),
             (''behavioral_score'', 1 / 5),
             (''time_since_last_tx'', 6),
             (''amount_deviation'', 500 :: real)]"
  have run: "extract_features ?sys test_transaction (Some test_history) 0 = Inr (?f, 6)"
    by (simp add: run_defs)
  show ?thesis
    using C9_timestamp_not_read [where sys = ?sys and tx = test_transaction
        and t = "Some ''1999-12-31T23:59:59''" and h = "Some test_history" and w = 0
        and f = ?f and w' = 6] run
    unfolding Let_def by simp
qed

section \<open>Three decimals\<close>

text \<open>
  Claim C10. In every returned result the risk score, the confidence and the four displayed
  sub-scores are values rounded to three decimals: each is \<open>round(x, 3)\<close> of some \<open>x\<close>, and
  \<open>round(x, 3)\<close> is always a whole number of thousandths, at most half a thousandth away
  from \<open>x\<close>.
\<close>

theorem C10_three_decimals:
  assumes "predict_fraud sys tx h w = Inr (r, w')"
  shows "\<exists>p c b l d v.
    map_of r ''riskScore'' = Some (RFloat (py_round p 3)) \<and>
    map_of r ''confidence'' = Some (RFloat (py_round c 3)) \<and>
    map_of r ''features'' = Some (RDict
      [(''behavioralScore'', RFloat (py_round b 3)),
       (''locationScore'', RFloat (py_round l 3)),
       (''deviceScore'', RFloat (py_round d 3)),
       (''velocityScore'', RFloat (py_round v 3))]) \<and>
    (\<forall>x. (\<exists>k::int. py_round x 3 = of_int k / 1000) \<and> \<bar>py_round x 3 - x\<bar> \<le> 1 / 2000)"
proof -
  obtain f w2 scaled p1 p2 beh loc dev vel where
    r: "r = [(''riskScore'', RFloat (py_round ((p1 + p2) / 2) 3)),
         (''riskLevel'', RStr (fst (risk_decision ((p1 + p2) / 2)))),
         (''decision'', RStr (snd (risk_decision ((p1 + p2) / 2)))),
         (''confidence'', RFloat (py_round (max ((p1 + p2) / 2) (1 - (p1 + p2) / 2)) 3)),
         (''processingTime'',
            RStr (fmt_0f ((fst (time_time sys w2) - fst (time_time sys w)) * 1000) @ ''ms'')),
         (''features'', RDict
            [(''behavioralScore'', RFloat (py_round beh 3)),
             (''locationScore'', RFloat (py_round (1 - loc) 3)),
             (''deviceScore'', RFloat (py_round (1 - dev) 3)),
             (''velocityScore'', RFloat (py_round (1 - vel) 3))]),
         (''timestamp'', RStr (isoformat (fst (datetime_now sys (snd (time_time sys w2))))))]"
    using predict_fraud_Inr [OF assms] by blast
  have fields:
    "map_of r ''riskScore'' = Some (RFloat (py_round ((p1 + p2) / 2) 3)) \<and>
     map_of r ''confidence'' =
       Some (RFloat (py_round (max ((p1 + p2) / 2) (1 - (p1 + p2) / 2)) 3)) \<and>
     map_of r ''features'' = Some (RDict
      [(''behavioralScore'', RFloat (py_round beh 3)),
       (''locationScore'', RFloat (py_round (1 - loc) 3)),
       (''deviceScore'', RFloat (py_round (1 - dev) 3)),
       (''velocityScore'', RFloat (py_round (1 - vel) 3))])"
    by (simp add: r)
  have rounded: "(\<exists>k::int. py_round x 3 = of_int k / 1000) \<and> \<bar>py_round x 3 - x\<bar> \<le> 1 / 2000"
    for x
    using py_round_grid [of x] py_round_close [of x] by blast
  from fields rounded show ?thesis
    by blast
qed

theorem C10_three_decimals_witness:
  "(let sys = stub_sys (12345 / 100000) (4 / 5) (2 / 5);
        r = [(''riskScore'', RFloat (3 / 5)),
             (''riskLevel'', RStr ''MEDIUM''),
             (''decision'', RStr ''REVIEW''),
             (''confidence'', RFloat (3 / 5)),
             (''processingTime'', RStr ''7ms''),
             (''features'', RDict
                [(''behavioralScore'', RFloat (123 / 1000)),
                 (''locationScore'', RFloat (877 / 1000)),
                 (''deviceScore'', RFloat (877 / 1000)),
                 (''velocityScore'', RFloat (877 / 1000))]),
             (''timestamp'', RStr ''2024-05-01T14:00:00'')]
    in predict_fraud sys test_transaction (Some test_history) 0 = Inr (r, 9) \<and>
       (\<exists>p c b l d v.
          map_of r ''riskScore'' = Some (RFloat (py_round p 3)) \<and>
          map_of r ''confidence'' = Some (RFloat (py_round c 3)) \<and>
          map_of r ''features'' = Some (RDict
            [(''behavioralScore'', RFloat (py_round b 3)),
             (''locationScore'', RFloat (py_round l 3)),
             (''deviceScore'', RFloat (py_round d 3)),
             (''velocityScore'', RFloat (py_round v 3))]) \<and>
          (\<forall>x. (\<exists>k::int. py_round x 3 = of_int k / 1000) \<and>
             \<bar>py_round x 3 - x\<bar> \<le> 1 / 2000)))"
proof -
  let ?sys = "stub_sys (12345 / 100000) (4 / 5) (2 / 5)"
  let ?r = "[(''riskScore'', RFloat (3 / 5)),
             (''riskLevel'', RStr ''MEDIUM''),
             (''decision'', RStr ''REVIEW''),
             (''confidence'', RFloat (3 / 5)),
             (''processingTime'', RStr ''7ms''),
             (''features'', RDict
                [(''behavioralScore'', RFloat (123 / 1000)),
                 (''locationScore'', RFloat (877 / 1000)),
                 (''deviceScore'', RFloat (877 / 1000)),
                 (''velocityScore'', RFloat (877 / 1000))]),
             (''timestamp'', RStr ''2024-05-01T14:00:00'')]"
  have run: "predict_fraud ?sys test_transaction (Some test_history) 0 = Inr (?r, 9)"
    by (simp add: run_defs)
  show ?thesis
    unfolding Let_def by (rule conjI [OF run C10_three_decimals [OF run]])
qed

end
